theory Spec2Isabelle
  imports Complex_Main
begin

section \<open>Station tracker: geofence selection, detection and event sync\<close>

text \<open>
  A shallow embedding of the TypeScript services of the station tracker:
  \<^item> \<open>cloud-sync.service.ts\<close>: the pending-event queue and its batch flush;
  \<^item> \<open>geolocation.service.ts\<close>: \<open>isInsideStation\<close> and \<open>pointInPolygon\<close>;
  \<^item> \<open>geofence-optimizer.service.ts\<close>: movement analysis, scoring, context filter, radius;
  \<^item> \<open>geofence-manager.service.ts\<close>: the 1 km trigger, priorities and radius tiers.

  JavaScript numbers are modelled as \<open>real\<close> where they carry measurements (coordinates,
  distances, speeds, scores), as \<open>nat\<close> or \<open>int\<close> where they are counters, lengths or
  millisecond time stamps. \<open>new Date()\<close> and \<open>navigator.onLine\<close> are inputs of the
  environment and appear as parameters (\<open>now\<close>, \<open>online\<close>). Exceptions are values of
  \<open>js_error\<close>; a \<open>try/catch\<close> is a case distinction on the sum type.
\<close>

datatype js_error = SyntaxError | TypeError | RangeError | PluginError

subsection \<open>Event sync queue (cloud-sync.service.ts)\<close>

datatype event_action = enter | exit

text \<open>The payload \<open>data?: any\<close> of a native event: every property may be missing.\<close>

record event_data =
  d_stationId :: "int option"
  d_stationName :: "string option"
  d_line :: "string option"

record GeofenceEvent =
  ge_identifier :: string
  ge_action :: event_action
  ge_latitude :: real
  ge_longitude :: real
  ge_timestamp :: int
  ge_data :: "event_data option"

text \<open>
  The queued event; its fields carry the prefix \<open>ce_\<close>. \<open>timestamp\<close> and
  \<open>localTimestamp\<close> hold the millisecond value that \<open>toISOString\<close> renders; the
  rendering itself is not modelled.
\<close>

record CloudGeofenceEvent =
  ce_stationId :: int
  ce_stationName :: string
  ce_line :: string
  ce_eventType :: event_action
  ce_latitude :: real
  ce_longitude :: real
  ce_timestamp :: int
  ce_deviceId :: string
  ce_appVersion :: string
  ce_synced :: bool
  ce_localTimestamp :: int

record SyncStatus =
  isOnline :: bool
  lastSync :: "int option"
  pendingCount :: nat
  syncErrors :: nat
  totalEventsSynced :: nat

text \<open>
  The service: the \<open>syncStatus\<close> subject's current value, the in-memory queue, the device
  id and the copy of the queue kept under \<open>OFFLINE_STORAGE_KEY\<close> in local storage.
  (\<open>pendingCount\<close> is the status field \<open>pendingEvents\<close>, renamed apart from the queue.)
\<close>

record CloudSyncService =
  syncStatus :: SyncStatus
  pendingEvents :: "CloudGeofenceEvent list"
  cs_deviceId :: string
  offline_storage :: "CloudGeofenceEvent list option"


definition MAX_BATCH_SIZE :: nat where
  "MAX_BATCH_SIZE = 50"

text \<open>What a \<open>setTimeout\<close> callback does when it fires.\<close>

datatype timer_action = PerformSync | PerformSyncIfOnline

text \<open>A scheduled timer: delay in milliseconds and callback.\<close>

type_synonym timer = "nat \<times> timer_action"

text \<open>
  The outcome of the POST pipeline (\<open>timeout\<close>, \<open>retry\<close>, \<open>catchError\<close>,
  \<open>toPromise\<close>): it throws, or it delivers a response whose \<open>success\<close> is truthy or not.
\<close>

datatype http_result = HttpError | Response bool

text \<open>\<open>new Date(t).toISOString()\<close> throws a RangeError outside the valid time range.\<close>

definition toISOString :: "int \<Rightarrow> js_error + int" where
  "toISOString t = (if \<bar>t\<bar> \<le> 8640000000000000 then Inr t else Inl RangeError)"

definition updateSyncStatus :: "(SyncStatus \<Rightarrow> SyncStatus) \<Rightarrow> CloudSyncService \<Rightarrow> CloudSyncService" where
  "updateSyncStatus updates s = s\<lparr>syncStatus := updates (syncStatus s)\<rparr>"

definition savePendingEvents :: "CloudSyncService \<Rightarrow> CloudSyncService" where
  "savePendingEvents s = s\<lparr>offline_storage := Some (pendingEvents s)\<rparr>"

text \<open>
  What a call of \<open>performSync\<close> holds while its request is in flight: the snapshot
  \<open>currentStatus\<close> and \<open>batchSize\<close>, both read before the first \<open>await\<close>.
\<close>

record sync_request =
  rq_currentStatus :: SyncStatus
  rq_batchSize :: nat

text \<open>
  The synchronous start of \<open>performSync\<close>: nothing to do on an empty queue, otherwise the
  snapshot and the batch size are taken and the request goes out.
\<close>

definition performSync_begin :: "CloudSyncService \<Rightarrow> sync_request option" where
  "performSync_begin s =
     (if length (pendingEvents s) = 0 then None
      else Some \<lparr>rq_currentStatus = syncStatus s,
                  rq_batchSize = min MAX_BATCH_SIZE (length (pendingEvents s))\<rparr>)"

text \<open>
  The rest of \<open>performSync\<close>, on the outcome of the POST, in the state the service has by
  then. Both branches compute from the snapshot. The result is the new service state and the
  timers the call has scheduled.
\<close>

definition performSync_complete :: "int \<Rightarrow> http_result \<Rightarrow> sync_request \<Rightarrow> CloudSyncService \<Rightarrow> CloudSyncService \<times> timer list" where
  "performSync_complete now result rq s =
     (let currentStatus = rq_currentStatus rq;
          batchSize = rq_batchSize rq
      in (case result of
            Response True \<Rightarrow>
              let s1 = s\<lparr>pendingEvents := drop batchSize (pendingEvents s)\<rparr>;
                  s2 = updateSyncStatus (\<lambda>st. st\<lparr>
                         lastSync := Some now,
                         pendingCount := length (pendingEvents s1),
                         totalEventsSynced := totalEventsSynced currentStatus + batchSize,
                         syncErrors := nat (max 0 (int (syncErrors currentStatus) - 1))\<rparr>) s1;
                  s3 = savePendingEvents s2
              in (s3, if length (pendingEvents s3) > 0 then [(1000, PerformSync)] else [])
          | _ \<Rightarrow>
              let s1 = updateSyncStatus (\<lambda>st. st\<lparr>syncErrors := syncErrors currentStatus + 1\<rparr>) s;
                  backoffDelay = min 300000 (2 ^ syncErrors currentStatus * 1000)
              in (s1, [(backoffDelay, PerformSyncIfOnline)])))"

text \<open>A call of \<open>performSync\<close> that nothing interleaves with: start and completion.\<close>

definition performSync :: "int \<Rightarrow> http_result \<Rightarrow> CloudSyncService \<Rightarrow> CloudSyncService \<times> timer list" where
  "performSync now result s =
     (case performSync_begin s of
        None \<Rightarrow> (s, [])
      | Some rq \<Rightarrow> performSync_complete now result rq s)"


text \<open>A timer firing: the retry callback looks at \<open>navigator.onLine\<close> first.\<close>

definition fire_timer :: "int \<Rightarrow> bool \<Rightarrow> http_result \<Rightarrow> timer_action \<Rightarrow> CloudSyncService \<Rightarrow> CloudSyncService \<times> timer list" where
  "fire_timer now online result a s =
     (case a of
        PerformSync \<Rightarrow> performSync now result s
      | PerformSyncIfOnline \<Rightarrow> if online then performSync now result s else (s, []))"

text \<open>The periodic tick of \<open>startPeriodicSync\<close>, every \<open>SYNC_INTERVAL\<close> milliseconds.\<close>

definition periodic_tick :: "int \<Rightarrow> bool \<Rightarrow> http_result \<Rightarrow> CloudSyncService \<Rightarrow> CloudSyncService \<times> timer list" where
  "periodic_tick now online result s =
     (if online \<and> length (pendingEvents s) > 0 then performSync now result s else (s, []))"

definition or_default :: "'a option \<Rightarrow> ('a \<Rightarrow> bool) \<Rightarrow> 'a \<Rightarrow> 'a" where
  \<comment> \<open>\<open>v || d\<close>: a missing or falsy value gives the default\<close>
  "or_default v truthy d = (case v of None \<Rightarrow> d | Some x \<Rightarrow> if truthy x then x else d)"

definition data_prop :: "event_data option \<Rightarrow> (event_data \<Rightarrow> 'a option) \<Rightarrow> 'a option" where
  \<comment> \<open>\<open>event.data?.p\<close>\<close>
  "data_prop d p = (case d of None \<Rightarrow> None | Some x \<Rightarrow> p x)"

text \<open>
  \<open>queueGeofenceEvent\<close>: builds the cloud event (which throws on an invalid time stamp,
  before anything is queued), appends it and persists. When online it starts a flush without
  waiting for it: the result carries the request then in flight, to be completed later by
  \<open>performSync_complete\<close>.
\<close>

definition queueGeofenceEvent ::
  "int \<Rightarrow> bool \<Rightarrow> GeofenceEvent \<Rightarrow> CloudSyncService \<Rightarrow> js_error + CloudSyncService \<times> sync_request option" where
  "queueGeofenceEvent now online event s =
     (case toISOString (ge_timestamp event) of
        Inl e \<Rightarrow> Inl e
      | Inr isoTime \<Rightarrow>
          let cloudEvent = \<lparr>
                ce_stationId = or_default (data_prop (ge_data event) d_stationId) (\<lambda>i. i \<noteq> 0) 0,
                ce_stationName = or_default (data_prop (ge_data event) d_stationName) (\<lambda>n. n \<noteq> []) ''Unknown'',
                ce_line = or_default (data_prop (ge_data event) d_line) (\<lambda>n. n \<noteq> []) ''Unknown'',
                ce_eventType = ge_action event,
                ce_latitude = ge_latitude event,
                ce_longitude = ge_longitude event,
                ce_timestamp = isoTime,
                ce_deviceId = cs_deviceId s,
                ce_appVersion = ''1.0.0'',
                ce_synced = False,
                ce_localTimestamp = now\<rparr>;
              s1 = s\<lparr>pendingEvents := pendingEvents s @ [cloudEvent]\<rparr>;
              s2 = updateSyncStatus (\<lambda>st. st\<lparr>pendingCount := length (pendingEvents s1)\<rparr>) s1;
              s3 = savePendingEvents s2
          in Inr (s3, if online then performSync_begin s3 else None))"



subsection \<open>Numbers and great-circle distance\<close>

text \<open>\<open>Math.atan2(y, x)\<close> on the reals (signed zeros are not distinguished).\<close>

definition atan2 :: "real \<Rightarrow> real \<Rightarrow> real" where
  "atan2 y x =
     (if x > 0 then arctan (y / x)
      else if x < 0 \<and> y \<ge> 0 then arctan (y / x) + pi
      else if x < 0 \<and> y < 0 then arctan (y / x) - pi
      else if y > 0 then pi / 2
      else if y < 0 then - (pi / 2)
      else 0)"

text \<open>\<open>Math.round\<close>: the nearest integer, a tie going up.\<close>

definition js_round :: "real \<Rightarrow> int" where
  "js_round x = \<lfloor>x + 1 / 2\<rfloor>"

text \<open>The remainder operator \<open>%\<close> on numbers: the quotient is truncated towards zero.\<close>

definition js_rem :: "real \<Rightarrow> real \<Rightarrow> real" where
  "js_rem x m = x - m * of_int (if x / m \<ge> 0 then \<lfloor>x / m\<rfloor> else \<lceil>x / m\<rceil>)"

text \<open>
  \<open>Array.prototype.slice(0, end)\<close> for an integral \<open>end\<close>: a negative \<open>end\<close> counts
  from the end of the array.
\<close>

definition js_slice0 :: "int \<Rightarrow> 'a list \<Rightarrow> 'a list" where
  "js_slice0 end xs =
     (if end < 0 then take (nat (max (int (length xs) + end) 0)) xs
      else take (min (nat end) (length xs)) xs)"

text \<open>
  \<open>calculateDistance\<close> (haversine). The geolocation service, the optimizer and the
  manager each carry the same private copy of this function.
\<close>

definition calculateDistance :: "real \<Rightarrow> real \<Rightarrow> real \<Rightarrow> real \<Rightarrow> real" where
  "calculateDistance lat1 lon1 lat2 lon2 =
     (let R = 6371000;
          phi1 = lat1 * pi / 180;
          phi2 = lat2 * pi / 180;
          dphi = (lat2 - lat1) * pi / 180;
          dlambda = (lon2 - lon1) * pi / 180;
          a = sin (dphi / 2) * sin (dphi / 2) +
              cos phi1 * cos phi2 * sin (dlambda / 2) * sin (dlambda / 2);
          c = 2 * atan2 (sqrt a) (sqrt (1 - a))
      in R * c)"

subsection \<open>Station catalog and polygon data\<close>

text \<open>
  A catalog entry. \<open>polygon_data\<close> is the GeoJSON text; \<open>None\<close> stands for a missing
  property. \<open>name\<close> and \<open>line\<close> are read with \<open>?.\<close> by the code and may be missing
  (\<open>line\<close> is not even declared by the \<open>Station\<close> interface).
\<close>

record Station =
  st_id :: int
  st_name :: "string option"
  st_line :: "string option"
  st_latitude :: real
  st_longitude :: real
  polygon_data :: "string option"

text \<open>A ring is an array of \<open>[lng, lat]\<close> positions.\<close>

type_synonym ring = "(real \<times> real) list"

text \<open>
  What \<open>JSON.parse\<close> delivers, seen through the three properties the code reads: the value
  \<open>null\<close>, or a value with an optional \<open>type\<close> and optional \<open>coordinates\<close>. A
  \<open>coordinates\<close> property that is present is taken to be an array of rings of number
  pairs, as GeoJSON and the signature \<open>polygon: number[][]\<close> have it.
\<close>

record geojson =
  gj_type :: "string option"
  gj_coordinates :: "ring list option"

datatype parsed = PNull | PValue geojson

text \<open>
  \<open>JSON.parse\<close> itself is a built-in; it is a parameter \<open>parse\<close> of the functions below
  and may throw. Parsing a missing property throws a SyntaxError.
\<close>

type_synonym json_parser = "string \<Rightarrow> js_error + parsed"

definition JSON_parse :: "json_parser \<Rightarrow> string option \<Rightarrow> js_error + parsed" where
  "JSON_parse parse text = (case text of None \<Rightarrow> Inl SyntaxError | Some s \<Rightarrow> parse s)"

text \<open>
  The test \<open>polygon.type === 'Polygon' && polygon.coordinates && polygon.coordinates[0]\<close>:
  reading a property of \<open>null\<close> throws a TypeError; otherwise the result is the outer ring
  when the test is truthy (an array is truthy even when empty) and \<open>None\<close> when not.
\<close>

definition polygon_outer_ring :: "parsed \<Rightarrow> js_error + ring option" where
  "polygon_outer_ring polygon =
     (case polygon of
        PNull \<Rightarrow> Inl TypeError
      | PValue g \<Rightarrow>
          if gj_type g = Some ''Polygon'' then
            (case gj_coordinates g of
               None \<Rightarrow> Inr None
             | Some [] \<Rightarrow> Inr None
             | Some (r # _) \<Rightarrow> Inr (Some r))
          else Inr None)"

subsection \<open>Detection by polling (geolocation.service.ts)\<close>

record point =
  p_latitude :: real
  p_longitude :: real

text \<open>
  The loop of \<open>pointInPolygon\<close>: \<open>for (let i = 0, j = polygon.length - 1;
  i < polygon.length; j = i++)\<close>.
\<close>

function pointInPolygon_loop :: "real \<Rightarrow> real \<Rightarrow> ring \<Rightarrow> nat \<Rightarrow> nat \<Rightarrow> bool \<Rightarrow> bool" where
  "pointInPolygon_loop x y polygon i j inside =
     (if i < length polygon then
        (let xi = fst (polygon ! i); yi = snd (polygon ! i);
             xj = fst (polygon ! j); yj = snd (polygon ! j)
         in pointInPolygon_loop x y polygon (i + 1) i
              (if ((yi > y) \<noteq> (yj > y)) \<and> (x < (xj - xi) * (y - yi) / (yj - yi) + xi)
               then \<not> inside else inside))
      else inside)"
  by pat_completeness auto
termination
  by (relation "measure (\<lambda>(x, y, polygon, i, j, inside). length polygon - i)") auto

declare pointInPolygon_loop.simps [simp del]

definition pointInPolygon :: "point \<Rightarrow> ring \<Rightarrow> bool" where
  "pointInPolygon pt polygon =
     (let x = p_longitude pt; y = p_latitude pt
      in pointInPolygon_loop x y polygon 0 (length polygon - 1) False)"

text \<open>The body of the \<open>try\<close> block of \<open>isInsideStation\<close>.\<close>

definition isInsideStation_try :: "json_parser \<Rightarrow> point \<Rightarrow> Station \<Rightarrow> js_error + bool" where
  "isInsideStation_try parse pt station =
     (case JSON_parse parse (polygon_data station) of
        Inl e \<Rightarrow> Inl e
      | Inr polygon \<Rightarrow>
          (case polygon_outer_ring polygon of
             Inl e \<Rightarrow> Inl e
           | Inr (Some r) \<Rightarrow> Inr (pointInPolygon pt r)
           | Inr None \<Rightarrow>
               (let distance = calculateDistance (p_latitude pt) (p_longitude pt)
                                 (st_latitude station) (st_longitude station)
                in Inr (distance \<le> 100))))"

text \<open>\<open>isInsideStation\<close>: the \<open>try\<close> block, and the \<open>catch\<close> block on any exception.\<close>

definition isInsideStation :: "json_parser \<Rightarrow> point \<Rightarrow> Station \<Rightarrow> js_error + bool" where
  "isInsideStation parse pt station =
     (case isInsideStation_try parse pt station of
        Inr b \<Rightarrow> Inr b
      | Inl error \<Rightarrow>
          (let distance = calculateDistance (p_latitude pt) (p_longitude pt)
                            (st_latitude station) (st_longitude station)
           in Inr (distance \<le> 100)))"

subsection \<open>Strings\<close>

text \<open>
  Strings are byte lists holding UTF-8; a substring test on well-formed UTF-8 agrees with
  the one on JavaScript's UTF-16 strings. \<open>toLowerCase\<close> is modelled on the ASCII letters;
  the patterns the code looks for are kanji and the ASCII word \<open>yamanote\<close>.
\<close>

definition lower_char :: "char \<Rightarrow> char" where
  "lower_char c = (let n = (of_char c :: nat) in if 65 \<le> n \<and> n \<le> 90 then char_of (n + 32) else c)"

definition toLowerCase :: "string \<Rightarrow> string" where
  "toLowerCase s = map lower_char s"

fun starts_with :: "string \<Rightarrow> string \<Rightarrow> bool" where
  "starts_with s [] = True"
| "starts_with [] (p # ps) = False"
| "starts_with (c # cs) (p # ps) = (c = p \<and> starts_with cs ps)"

text \<open>\<open>String.prototype.includes\<close>.\<close>

fun js_includes :: "string \<Rightarrow> string \<Rightarrow> bool" where
  "js_includes [] pat = (pat = [])"
| "js_includes (c # cs) pat = (starts_with (c # cs) pat \<or> js_includes cs pat)"

text \<open>\<open>x?.toLowerCase() || ''\<close>.\<close>

definition lower_or_empty :: "string option \<Rightarrow> string" where
  "lower_or_empty x = (case x of None \<Rightarrow> [] | Some s \<Rightarrow> toLowerCase s)"

definition str_yamanote :: string where
  "str_yamanote = [CHR 0xE5, CHR 0xB1, CHR 0xB1, CHR 0xE6, CHR 0x89, CHR 0x8B]"

definition str_chuo :: string where
  "str_chuo = [CHR 0xE4, CHR 0xB8, CHR 0xAD, CHR 0xE5, CHR 0xA4, CHR 0xAE]"

definition str_sobu :: string where
  "str_sobu = [CHR 0xE7, CHR 0xB7, CHR 0x8F, CHR 0xE6, CHR 0xAD, CHR 0xA6]"

definition str_keihin_tohoku :: string where
  "str_keihin_tohoku = [CHR 0xE4, CHR 0xBA, CHR 0xAC, CHR 0xE6, CHR 0xB5, CHR 0x9C,
     CHR 0xE6, CHR 0x9D, CHR 0xB1, CHR 0xE5, CHR 0x8C, CHR 0x97]"

definition str_tokaido :: string where
  "str_tokaido = [CHR 0xE6, CHR 0x9D, CHR 0xB1, CHR 0xE6, CHR 0xB5, CHR 0xB7, CHR 0xE9, CHR 0x81, CHR 0x93]"

definition str_shinjuku :: string where
  "str_shinjuku = [CHR 0xE6, CHR 0x96, CHR 0xB0, CHR 0xE5, CHR 0xAE, CHR 0xBF]"

definition str_tokyo :: string where
  "str_tokyo = [CHR 0xE6, CHR 0x9D, CHR 0xB1, CHR 0xE4, CHR 0xBA, CHR 0xAC]"

definition str_shibuya :: string where
  "str_shibuya = [CHR 0xE6, CHR 0xB8, CHR 0x8B, CHR 0xE8, CHR 0xB0, CHR 0xB7]"

definition str_shinagawa :: string where
  "str_shinagawa = [CHR 0xE5, CHR 0x93, CHR 0x81, CHR 0xE5, CHR 0xB7, CHR 0x9D]"

text \<open>The test for a major station name, the same in the optimizer and the manager.\<close>

definition major_station_name :: "string \<Rightarrow> bool" where
  "major_station_name nm \<longleftrightarrow>
     js_includes nm str_shinjuku \<or> js_includes nm str_tokyo \<or>
     js_includes nm str_shibuya \<or> js_includes nm str_shinagawa"

text \<open>
  Decimal rendering of an integer, for the template \<open>`station-${id}`\<close>. It is what
  JavaScript prints for ids of magnitude below \<open>10^21\<close>; larger numbers are printed in
  exponent form, which is not modelled.
\<close>

fun nat_to_string :: "nat \<Rightarrow> string" where
  "nat_to_string n =
     (if n < 10 then [char_of (48 + n)]
      else nat_to_string (n div 10) @ [char_of (48 + n mod 10)])"

declare nat_to_string.simps [simp del]

definition number_to_string :: "int \<Rightarrow> string" where
  "number_to_string i = (if i < 0 then CHR ''-'' # nat_to_string (nat (- i)) else nat_to_string (nat i))"

definition station_identifier :: "Station \<Rightarrow> string" where
  "station_identifier s = ''station-'' @ number_to_string (st_id s)"

subsection \<open>Double arithmetic of the context filter\<close>

text \<open>
  \<open>Math.floor(n * 0.7)\<close> for an array length \<open>n\<close>, in IEEE 754 binary64: the literal
  \<open>0.7\<close> is the double \<open>3152519739159347 / 2^52\<close>, the product is rounded to 53
  significant bits (ties to even), and the floor is taken of the rounded product. The result
  differs from \<open>\<lfloor>7 n / 10\<rfloor>\<close> for some \<open>n\<close> (the first is 90).
\<close>

fun bit_length :: "nat \<Rightarrow> nat" where
  "bit_length n = (if n = 0 then 0 else Suc (bit_length (n div 2)))"

declare bit_length.simps [simp del]

definition round_to_53_bits :: "nat \<Rightarrow> nat" where
  "round_to_53_bits m =
     (let s = bit_length m - 53;
          q = m div 2 ^ s;
          r = m mod 2 ^ s
      in if 2 * r > 2 ^ s \<or> (2 * r = 2 ^ s \<and> odd q) then (q + 1) * 2 ^ s else q * 2 ^ s)"

definition floor_times_0_7 :: "nat \<Rightarrow> nat" where
  "floor_times_0_7 n = round_to_53_bits (n * 3152519739159347) div 2 ^ 52"

subsection \<open>Movement analyzer (geofence-optimizer.service.ts)\<close>

text \<open>
  A location sample. \<open>timestamp\<close> is a \<open>Date\<close>: its time value in milliseconds, or
  \<open>None\<close> for an Invalid Date (as \<open>new Date(x)\<close> gives for an unreadable stored value).
\<close>

record LocationContext =
  lc_latitude :: real
  lc_longitude :: real
  lc_timestamp :: "int option"
  lc_accuracy :: real
  lc_speed :: "real option"
  lc_heading :: "real option"

datatype time_of_day = morning | afternoon | evening | night

datatype day_type = weekday | weekend

record frequent_area =
  fa_lat :: real
  fa_lng :: real
  fa_visits :: nat

record MovementPattern =
  averageSpeed :: real
  primaryDirection :: real
  frequentAreas :: "frequent_area list"
  timeOfDay :: time_of_day
  dayType :: day_type

text \<open>What \<open>new Date()\<close> shows of the wall clock: \<open>getHours()\<close> and \<open>getDay()\<close>.\<close>

record wall_clock =
  getHours :: nat
  getDay :: nat

text \<open>
  The optimizer: the history (most recent first), the current value of the
  \<open>movementPattern\<close> subject (\<open>None\<close> is \<open>null\<close>) and the history kept in local storage.
\<close>

record GeofenceOptimizerService =
  locationHistory :: "LocationContext list"
  movementPattern :: "MovementPattern option"
  location_history_storage :: "LocationContext list option"

definition MAX_LOCATION_HISTORY :: nat where
  "MAX_LOCATION_HISTORY = 1000"

text \<open>
  The constructor: \<open>loadLocationHistory\<close> reads what local storage holds (\<open>None\<close>: nothing
  stored, or unreadable); the pattern starts as \<open>null\<close>.
\<close>

definition new_GeofenceOptimizerService :: "LocationContext list option \<Rightarrow> GeofenceOptimizerService" where
  "new_GeofenceOptimizerService stored =
     \<lparr>locationHistory = (case stored of None \<Rightarrow> [] | Some h \<Rightarrow> h),
      movementPattern = None,
      location_history_storage = stored\<rparr>"

text \<open>
  The speed loop of \<open>analyzeMovementPattern\<close> over consecutive pairs
  \<open>(recentLocations[i-1], recentLocations[i])\<close>; the accumulator is
  \<open>(totalSpeed, speedSamples)\<close>. With an Invalid Date the difference is \<open>NaN\<close>
  (\<open>None\<close>), which fails both comparisons.
\<close>

fun speed_loop :: "LocationContext list \<Rightarrow> real \<times> nat \<Rightarrow> real \<times> nat" where
  "speed_loop (current # previous # rest) (totalSpeed, speedSamples) =
     (let distance = calculateDistance (lc_latitude current) (lc_longitude current)
                       (lc_latitude previous) (lc_longitude previous);
          timeDiff = (case (lc_timestamp current, lc_timestamp previous) of
                        (Some t1, Some t2) \<Rightarrow> Some (real_of_int (t1 - t2) / 1000)
                      | other \<Rightarrow> None)
      in speed_loop (previous # rest)
           (case timeDiff of
              Some dt \<Rightarrow>
                if dt > 0 \<and> dt < 600 then
                  (let speed = distance / dt
                   in if speed < 50 then (totalSpeed + speed, speedSamples + 1)
                      else (totalSpeed, speedSamples))
                else (totalSpeed, speedSamples)
            | None \<Rightarrow> (totalSpeed, speedSamples)))"
| "speed_loop locations acc = acc"

text \<open>The loop of \<open>calculatePrimaryDirection\<close>; the accumulator is \<open>(totalDeltaLat, totalDeltaLng)\<close>.\<close>

fun delta_loop :: "LocationContext list \<Rightarrow> real \<times> real \<Rightarrow> real \<times> real" where
  "delta_loop (a # b # rest) (totalDeltaLat, totalDeltaLng) =
     delta_loop (b # rest)
       (totalDeltaLat + (lc_latitude a - lc_latitude b),
        totalDeltaLng + (lc_longitude a - lc_longitude b))"
| "delta_loop locations acc = acc"

definition calculatePrimaryDirection :: "LocationContext list \<Rightarrow> real" where
  "calculatePrimaryDirection locations =
     (if length locations < 5 then 0
      else
        let (totalDeltaLat, totalDeltaLng) = delta_loop (take (min (length locations) 20) locations) (0, 0);
            angle = atan2 totalDeltaLat totalDeltaLng * 180 / pi
        in js_rem (angle + 360) 360)"

text \<open>
  \<open>areaMap\<close>: a \<open>Map\<close> keeps its keys in insertion order; the key is the pair of grid
  coordinates (its rendering as text is not modelled). The grid rounding in
  \<open>findFrequentAreas\<close> is taken over the reals: for a coordinate on the border of two cells
  the doubles of the code can give the neighbouring cell.
\<close>

fun areaMap_visit :: "real \<times> real \<Rightarrow> ((real \<times> real) \<times> frequent_area) list \<Rightarrow> ((real \<times> real) \<times> frequent_area) list" where
  "areaMap_visit key [] = [(key, \<lparr>fa_lat = fst key, fa_lng = snd key, fa_visits = 1\<rparr>)]"
| "areaMap_visit key ((k, area) # m) =
     (if k = key then (k, area\<lparr>fa_visits := fa_visits area + 1\<rparr>) # m
      else (k, area) # areaMap_visit key m)"

definition findFrequentAreas :: "LocationContext list \<Rightarrow> frequent_area list" where
  "findFrequentAreas locations =
     (let gridSize = 1 / 1000;
          areaMap = foldl (\<lambda>m location.
                      let gridLat = real_of_int (js_round (lc_latitude location / gridSize)) * gridSize;
                          gridLng = real_of_int (js_round (lc_longitude location / gridSize)) * gridSize
                      in areaMap_visit (gridLat, gridLng) m) [] locations
      in take 10 (sort_key (\<lambda>area. - int (fa_visits area))
                   (filter (\<lambda>area. fa_visits area \<ge> 5) (map snd areaMap))))"

definition analyzeMovementPattern :: "wall_clock \<Rightarrow> GeofenceOptimizerService \<Rightarrow> GeofenceOptimizerService" where
  "analyzeMovementPattern now s =
     (if length (locationHistory s) < 10 then s
      else
        let recentLocations = take 50 (locationHistory s);
            (totalSpeed, speedSamples) = speed_loop recentLocations (0, 0);
            averageSpeed' = (if speedSamples > 0 then totalSpeed / real speedSamples else 0);
            primaryDirection' = calculatePrimaryDirection recentLocations;
            frequentAreas' = findFrequentAreas (locationHistory s);
            hour = getHours now;
            timeOfDay' = (if hour < 6 then night else if hour < 12 then morning
                          else if hour < 18 then afternoon else evening);
            dayOfWeek = getDay now;
            dayType' = (if dayOfWeek = 0 \<or> dayOfWeek = 6 then weekend else weekday);
            pattern = \<lparr>averageSpeed = averageSpeed', primaryDirection = primaryDirection',
                       frequentAreas = frequentAreas', timeOfDay = timeOfDay', dayType = dayType'\<rparr>
        in s\<lparr>movementPattern := Some pattern\<rparr>)"

text \<open>
  \<open>saveLocationHistory\<close>: \<open>toISOString\<close> of an Invalid Date throws, the \<open>catch\<close>
  logs it, and nothing is stored.
\<close>

definition saveLocationHistory :: "GeofenceOptimizerService \<Rightarrow> GeofenceOptimizerService" where
  "saveLocationHistory s =
     (let recentHistory = take 200 (locationHistory s)
      in if list_all (\<lambda>loc. lc_timestamp loc \<noteq> None) recentHistory
         then s\<lparr>location_history_storage := Some recentHistory\<rparr>
         else s)"

text \<open>\<open>updateLocation\<close> of the optimizer: \<open>unshift\<close>, cap, persist, analyze.\<close>

definition optimizer_updateLocation :: "wall_clock \<Rightarrow> LocationContext \<Rightarrow> GeofenceOptimizerService \<Rightarrow> GeofenceOptimizerService" where
  "optimizer_updateLocation now location s =
     (let h = location # locationHistory s;
          s1 = s\<lparr>locationHistory := (if length h > MAX_LOCATION_HISTORY then take MAX_LOCATION_HISTORY h else h)\<rparr>;
          s2 = saveLocationHistory s1
      in analyzeMovementPattern now s2)"

text \<open>Recording a sequence of samples, oldest first, each at its own wall-clock reading.\<close>

fun record_samples :: "(wall_clock \<times> LocationContext) list \<Rightarrow> GeofenceOptimizerService \<Rightarrow> GeofenceOptimizerService" where
  "record_samples [] s = s"
| "record_samples ((now, location) # rest) s = record_samples rest (optimizer_updateLocation now location s)"

subsection \<open>Region selector (geofence-optimizer.service.ts)\<close>

text \<open>
  The items \<open>{station, distance}\<close>, and their extensions by \<open>score\<close> (optimizer) and by
  \<open>priority\<close> (manager). Record fields carry a prefix where the plain name is also used
  for a local variable.
\<close>

record nearby_station =
  ns_station :: Station
  ns_distance :: real

record scored_station = nearby_station +
  ns_score :: int

record prioritized_station = nearby_station +
  ns_priority :: int

record region_data =
  rd_stationId :: int
  rd_stationName :: "string option"
  rd_line :: "string option"
  rd_score :: "int option"
  rd_optimized :: "bool option"
  rd_priority :: "int option"

record GeofenceRegionInfo =
  gr_identifier :: string
  gr_latitude :: real
  gr_longitude :: real
  gr_radius :: real
  gr_notifyOnEntry :: bool
  gr_notifyOnExit :: bool
  gr_data :: region_data
  gr_station :: Station
  gr_priority :: int
  gr_lastUpdated :: int
  gr_distanceFromUser :: real

definition calculateBearing :: "real \<Rightarrow> real \<Rightarrow> real \<Rightarrow> real \<Rightarrow> real" where
  "calculateBearing lat1 lng1 lat2 lng2 =
     (let dLng = (lng2 - lng1) * pi / 180;
          lat1Rad = lat1 * pi / 180;
          lat2Rad = lat2 * pi / 180;
          y = sin dLng * cos lat2Rad;
          x = cos lat1Rad * sin lat2Rad - sin lat1Rad * cos lat2Rad * cos dLng;
          bearing = atan2 y x * 180 / pi
      in js_rem (bearing + 360) 360)"

text \<open>The base distance score of \<open>calculateStationScore\<close> (the local \<open>distanceScore\<close>).\<close>

definition distanceScore :: "real \<Rightarrow> real" where
  "distanceScore d = (let maxDistance = 10000 in max 0 ((maxDistance - d) / maxDistance * 100))"

text \<open>The line bonus of \<open>calculateStationScore\<close>.\<close>

definition line_score :: "string \<Rightarrow> real" where
  "line_score line =
     (if js_includes line str_yamanote \<or> js_includes line ''yamanote'' then 25
      else if js_includes line str_chuo \<or> js_includes line str_sobu then 20
      else if js_includes line str_keihin_tohoku then 15
      else if js_includes line str_tokaido then 10
      else 0)"

text \<open>
  \<open>calculateStationScore\<close>. The successive values of the local \<open>score\<close> are
  \<open>score1\<close> to \<open>score6\<close>.
\<close>

definition calculateStationScore :: "'a nearby_station_scheme \<Rightarrow> point \<Rightarrow> MovementPattern option \<Rightarrow> int" where
  "calculateStationScore item currentLocation pattern =
     (let st = ns_station item;
          score1 = 0 + distanceScore (ns_distance item) * 0.4;
          score2 = (case pattern of
                      None \<Rightarrow> score1
                    | Some p \<Rightarrow>
                        let directionToStation = calculateBearing (p_latitude currentLocation)
                              (p_longitude currentLocation) (st_latitude st) (st_longitude st);
                            directionDiff = \<bar>directionToStation - primaryDirection p\<bar>;
                            alignmentScore = max 0 ((180 - min directionDiff (360 - directionDiff)) / 180 * 100)
                        in score1 + alignmentScore * 0.2);
          score3 = (case pattern of
                      None \<Rightarrow> score2
                    | Some p \<Rightarrow>
                        if length (frequentAreas p) > 0 \<and>
                           list_ex (\<lambda>area. calculateDistance (st_latitude st) (st_longitude st)
                                              (fa_lat area) (fa_lng area) \<le> 500) (frequentAreas p)
                        then score2 + 30 else score2);
          score4 = score3 + line_score (lower_or_empty (st_line st));
          score5 = (case pattern of
                      None \<Rightarrow> score4
                    | Some p \<Rightarrow>
                        if (timeOfDay p = morning \<or> timeOfDay p = evening) \<and> dayType p = weekday
                        then (if major_station_name (lower_or_empty (st_name st)) then score4 + 20 else score4)
                        else score4);
          score6 = (case pattern of
                      None \<Rightarrow> score5
                    | Some p \<Rightarrow> if averageSpeed p > 10 then score5 + 10 else score5)
      in js_round score6)"

definition applyContextFiltering :: "scored_station list \<Rightarrow> MovementPattern option \<Rightarrow> scored_station list" where
  "applyContextFiltering stations pattern =
     (case pattern of
        None \<Rightarrow> stations
      | Some p \<Rightarrow>
          if averageSpeed p > 20 then
            js_slice0 (int (floor_times_0_7 (length stations))) (filter (\<lambda>s. ns_score s \<ge> 50) stations)
          else if averageSpeed p < 2 then
            filter (\<lambda>s. ns_distance s \<le> 2000) stations
          else stations)"

text \<open>
  The bounding-box loop and the polygon radius, the \<open>try\<close> body that
  \<open>calculateDynamicRadius\<close> and the manager's \<open>calculateOptimalRadius\<close> share word for
  word. Reading \<open>coords[0][1]\<close> of an empty ring throws a TypeError. The result is
  \<open>polygonRadius\<close>, or \<open>None\<close> when the \<open>if\<close> is not taken.
\<close>

definition bounding_box :: "real \<times> real \<Rightarrow> ring \<Rightarrow> real \<times> real \<times> real \<times> real" where
  "bounding_box c0 coords =
     foldl (\<lambda>(minLat, maxLat, minLng, maxLng) coord.
              (min minLat (snd coord), max maxLat (snd coord),
               min minLng (fst coord), max maxLng (fst coord)))
           (snd c0, snd c0, fst c0, fst c0) coords"

definition polygon_radius :: "json_parser \<Rightarrow> Station \<Rightarrow> js_error + real option" where
  "polygon_radius parse st =
     (case JSON_parse parse (polygon_data st) of
        Inl e \<Rightarrow> Inl e
      | Inr polygon \<Rightarrow>
          (case polygon_outer_ring polygon of
             Inl e \<Rightarrow> Inl e
           | Inr None \<Rightarrow> Inr None
           | Inr (Some coords) \<Rightarrow>
               (case coords of
                  [] \<Rightarrow> Inl TypeError
                | c0 # cs \<Rightarrow>
                    let (minLat, maxLat, minLng, maxLng) = bounding_box c0 coords;
                        latDistance = calculateDistance minLat (st_longitude st) maxLat (st_longitude st);
                        lngDistance = calculateDistance (st_latitude st) minLng (st_latitude st) maxLng;
                        polygonRadius = max latDistance lngDistance / 2
                    in Inr (Some polygonRadius))))"

text \<open>\<open>calculateDynamicRadius\<close>; the successive values of \<open>baseRadius\<close> are numbered.\<close>

definition calculateDynamicRadius :: "json_parser \<Rightarrow> 'a nearby_station_scheme \<Rightarrow> MovementPattern option \<Rightarrow> real" where
  "calculateDynamicRadius parse item pattern =
     (let baseRadius0 = 100;
          baseRadius1 = (if ns_distance item > 5000 then 150
                         else if ns_distance item > 2000 then 120
                         else if ns_distance item < 500 then 80
                         else baseRadius0);
          baseRadius2 = (case pattern of
                           None \<Rightarrow> baseRadius1
                         | Some p \<Rightarrow>
                             if averageSpeed p > 15 then baseRadius1 + 50
                             else if averageSpeed p < 1 then baseRadius1 - 20
                             else baseRadius1);
          baseRadius3 = (case polygon_radius parse (ns_station item) of
                           Inr (Some polygonRadius) \<Rightarrow> max baseRadius2 (polygonRadius + 30)
                         | Inr None \<Rightarrow> baseRadius2
                         | Inl error \<Rightarrow> baseRadius2)
      in max baseRadius3 50)"

text \<open>
  \<open>optimizeGeofenceSelection\<close>. \<open>sort((a, b) => b.score - a.score)\<close> is a stable sort
  by descending score; \<open>now\<close> is the time stamp \<open>new Date()\<close> gives.
\<close>

definition optimizeGeofenceSelection ::
  "json_parser \<Rightarrow> int \<Rightarrow> GeofenceOptimizerService \<Rightarrow> nearby_station list \<Rightarrow> point \<Rightarrow> int \<Rightarrow> GeofenceRegionInfo list" where
  "optimizeGeofenceSelection parse now s nearbyStations currentLocation maxRegions =
     (let pattern = movementPattern s;
          optimizedStations = sort_key (\<lambda>x. - ns_score x)
            (map (\<lambda>item. \<lparr>ns_station = ns_station item, ns_distance = ns_distance item,
                           ns_score = calculateStationScore item currentLocation pattern\<rparr>) nearbyStations);
          contextFiltered = applyContextFiltering optimizedStations pattern;
          selected = js_slice0 maxRegions contextFiltered
      in map (\<lambda>item.
           let radius = calculateDynamicRadius parse item pattern
           in \<lparr>gr_identifier = station_identifier (ns_station item),
               gr_latitude = st_latitude (ns_station item),
               gr_longitude = st_longitude (ns_station item),
               gr_radius = radius,
               gr_notifyOnEntry = True,
               gr_notifyOnExit = True,
               gr_data = \<lparr>rd_stationId = st_id (ns_station item),
                           rd_stationName = st_name (ns_station item),
                           rd_line = st_line (ns_station item),
                           rd_score = Some (ns_score item),
                           rd_optimized = Some True,
                           rd_priority = None\<rparr>,
               gr_station = ns_station item,
               gr_priority = ns_score item,
               gr_lastUpdated = now,
               gr_distanceFromUser = ns_distance item\<rparr>) selected)"

subsection \<open>Geofence manager (geofence-manager.service.ts)\<close>

definition MAX_ANDROID_REGIONS :: nat where
  "MAX_ANDROID_REGIONS = 100"

definition MAX_IOS_REGIONS :: nat where
  "MAX_IOS_REGIONS = 20"

definition OPTIMIZATION_RADIUS :: real where
  "OPTIMIZATION_RADIUS = 10000"

text \<open>\<open>getMaxRegions\<close>: the platform is the constant \<open>'ios'\<close>.\<close>

definition getMaxRegions :: nat where
  "getMaxRegions = (let platform = ''ios'' in if platform = ''ios'' then MAX_IOS_REGIONS else MAX_ANDROID_REGIONS)"

record GeofenceStats =
  gs_activeRegions :: nat
  gs_maxRegions :: nat
  gs_nearbyStations :: nat
  gs_totalStations :: nat
  gs_lastOptimization :: "int option"

text \<open>The calls the manager makes on the native plugin; each may be rejected.\<close>

datatype plugin_call = RemoveGeofences "string list" | AddGeofences "GeofenceRegionInfo list"

type_synonym native_plugin = "plugin_call \<Rightarrow> js_error option"

text \<open>
  The manager: the subjects' current values, the catalog, the regions saved in local
  storage, and the log of the calls made on the native plugin so far.
\<close>

record GeofenceManagerService =
  currentLocation :: "point option"
  activeRegions :: "GeofenceRegionInfo list"
  stats :: GeofenceStats
  allStations :: "Station list"
  regions_storage :: "GeofenceRegionInfo list option"
  native_calls :: "plugin_call list"

definition updateStats :: "(GeofenceStats \<Rightarrow> GeofenceStats) \<Rightarrow> GeofenceManagerService \<Rightarrow> GeofenceManagerService" where
  "updateStats updates s = s\<lparr>stats := updates (stats s)\<rparr>"

text \<open>The distance tier of \<open>prioritizeStations\<close>.\<close>

definition distance_priority :: "real \<Rightarrow> int" where
  "distance_priority d =
     (if d \<le> 500 then 100
      else if d \<le> 1000 then 80
      else if d \<le> 2000 then 60
      else if d \<le> 5000 then 40
      else 20)"

definition line_priority :: "string \<Rightarrow> int" where
  "line_priority line =
     (if js_includes line str_yamanote \<or> js_includes line ''yamanote'' then 30
      else if js_includes line str_chuo \<or> js_includes line str_sobu then 25
      else if js_includes line str_keihin_tohoku then 20
      else if js_includes line str_tokaido then 15
      else 10)"

definition prioritizeStations :: "nearby_station list \<Rightarrow> point \<Rightarrow> prioritized_station list" where
  "prioritizeStations nearbyStations location =
     sort_key (\<lambda>x. - ns_priority x)
       (map (\<lambda>item.
          let priority0 = 0;
              priority1 = priority0 + distance_priority (ns_distance item);
              priority2 = priority1 + line_priority (lower_or_empty (st_line (ns_station item)));
              priority3 = (if major_station_name (lower_or_empty (st_name (ns_station item)))
                           then priority2 + 25 else priority2)
          in \<lparr>ns_station = ns_station item, ns_distance = ns_distance item, ns_priority = priority3\<rparr>)
        nearbyStations)"

definition calculateOptimalRadius :: "json_parser \<Rightarrow> Station \<Rightarrow> real \<Rightarrow> real" where
  "calculateOptimalRadius parse st distanceFromUser =
     (case polygon_radius parse st of
        Inr (Some polygonRadius) \<Rightarrow> max (polygonRadius + 30) 50
      | other \<Rightarrow>
          if distanceFromUser \<le> 500 then 80
          else if distanceFromUser \<le> 1000 then 100
          else if distanceFromUser \<le> 2000 then 120
          else if distanceFromUser \<le> 5000 then 150
          else 200)"

definition invoke_plugin :: "native_plugin \<Rightarrow> plugin_call \<Rightarrow> GeofenceManagerService \<Rightarrow> js_error option \<times> GeofenceManagerService" where
  "invoke_plugin plugin call s = (plugin call, s\<lparr>native_calls := native_calls s @ [call]\<rparr>)"

definition saveRegionsToStorage :: "GeofenceRegionInfo list \<Rightarrow> GeofenceManagerService \<Rightarrow> GeofenceManagerService" where
  "saveRegionsToStorage regions s = s\<lparr>regions_storage := Some regions\<rparr>"

text \<open>
  \<open>updateActiveRegions\<close>: the result is the exception thrown, if any, and the state
  reached.
\<close>

definition updateActiveRegions :: "native_plugin \<Rightarrow> GeofenceRegionInfo list \<Rightarrow> GeofenceManagerService \<Rightarrow> js_error option \<times> GeofenceManagerService" where
  "updateActiveRegions plugin newRegions s =
     (let currentRegions = activeRegions s;
          currentIds = set (map gr_identifier currentRegions);
          newIds = set (map gr_identifier newRegions);
          toRemove = filter (\<lambda>r. gr_identifier r \<notin> newIds) currentRegions;
          toAdd = filter (\<lambda>r. gr_identifier r \<notin> currentIds) newRegions;
          (e1, s1) = (if length toRemove > 0
                      then invoke_plugin plugin (RemoveGeofences (map gr_identifier toRemove)) s
                      else (None, s))
      in case e1 of
           Some e \<Rightarrow> (Some e, s1)
         | None \<Rightarrow>
             let (e2, s2) = (if length toAdd > 0
                             then invoke_plugin plugin (AddGeofences toAdd) s1
                             else (None, s1))
             in case e2 of
                  Some e \<Rightarrow> (Some e, s2)
                | None \<Rightarrow> (None, saveRegionsToStorage newRegions (s2\<lparr>activeRegions := newRegions\<rparr>)))"

text \<open>The nearby stations and the new regions that \<open>optimizeGeofenceRegions\<close> computes.\<close>

definition nearby_stations :: "Station list \<Rightarrow> point \<Rightarrow> nearby_station list" where
  "nearby_stations stations location =
     sort_key ns_distance
       (filter (\<lambda>item. ns_distance item \<le> OPTIMIZATION_RADIUS)
          (map (\<lambda>st. \<lparr>ns_station = st,
                        ns_distance = calculateDistance (p_latitude location) (p_longitude location)
                                        (st_latitude st) (st_longitude st)\<rparr>) stations))"

definition new_regions :: "json_parser \<Rightarrow> int \<Rightarrow> Station list \<Rightarrow> point \<Rightarrow> GeofenceRegionInfo list" where
  "new_regions parse now stations location =
     (let nearbyStations = nearby_stations stations location;
          prioritizedStations = prioritizeStations nearbyStations location;
          maxRegions = getMaxRegions;
          selectedStations = js_slice0 (int maxRegions) prioritizedStations
      in map (\<lambda>item.
           let st = ns_station item;
               radius = calculateOptimalRadius parse st (ns_distance item)
           in \<lparr>gr_identifier = station_identifier st,
               gr_latitude = st_latitude st,
               gr_longitude = st_longitude st,
               gr_radius = radius,
               gr_notifyOnEntry = True,
               gr_notifyOnExit = True,
               gr_data = \<lparr>rd_stationId = st_id st, rd_stationName = st_name st, rd_line = st_line st,
                           rd_score = None, rd_optimized = None, rd_priority = Some (ns_priority item)\<rparr>,
               gr_station = st,
               gr_priority = ns_priority item,
               gr_lastUpdated = now,
               gr_distanceFromUser = ns_distance item\<rparr>) selectedStations)"

text \<open>
  \<open>optimizeGeofenceRegions\<close>: an exception out of \<open>updateActiveRegions\<close> is caught and
  logged, which leaves the statistics of the pass unwritten.
\<close>

definition optimizeGeofenceRegions :: "native_plugin \<Rightarrow> json_parser \<Rightarrow> int \<Rightarrow> point \<Rightarrow> GeofenceManagerService \<Rightarrow> GeofenceManagerService" where
  "optimizeGeofenceRegions plugin parse now location s =
     (let nearbyStations = nearby_stations (allStations s) location;
          s1 = updateStats (\<lambda>st. st\<lparr>gs_nearbyStations := length nearbyStations\<rparr>) s;
          newRegions = new_regions parse now (allStations s) location;
          (error, s2) = updateActiveRegions plugin newRegions s1
      in case error of
           Some e \<Rightarrow> s2
         | None \<Rightarrow> updateStats (\<lambda>st. st\<lparr>gs_activeRegions := length newRegions,
                                           gs_lastOptimization := Some now\<rparr>) s2)"

text \<open>\<open>updateLocation\<close> of the manager.\<close>

definition manager_updateLocation :: "native_plugin \<Rightarrow> json_parser \<Rightarrow> int \<Rightarrow> real \<Rightarrow> real \<Rightarrow> GeofenceManagerService \<Rightarrow> GeofenceManagerService" where
  "manager_updateLocation plugin parse now lat lng s =
     (let newLocation = \<lparr>p_latitude = lat, p_longitude = lng\<rparr>;
          previousLocation = currentLocation s;
          s1 = s\<lparr>currentLocation := Some newLocation\<rparr>
      in case previousLocation of
           Some prev \<Rightarrow>
             (let distance = calculateDistance (p_latitude prev) (p_longitude prev) lat lng
              in if distance < 1000 then s1
                 else optimizeGeofenceRegions plugin parse now newLocation s1)
         | None \<Rightarrow> optimizeGeofenceRegions plugin parse now newLocation s1)"

text \<open>The constructor and \<open>initialize\<close>.\<close>

definition new_GeofenceManagerService :: "Station list \<Rightarrow> GeofenceManagerService" where
  "new_GeofenceManagerService stations =
     \<lparr>currentLocation = None,
      activeRegions = [],
      stats = \<lparr>gs_activeRegions = 0, gs_maxRegions = getMaxRegions, gs_nearbyStations = 0,
                gs_totalStations = length stations, gs_lastOptimization = None\<rparr>,
      allStations = stations,
      regions_storage = None,
      native_calls = []\<rparr>"

subsection \<open>Concrete inputs\<close>

definition sample_event :: CloudGeofenceEvent where
  "sample_event = \<lparr>ce_stationId = 1, ce_stationName = ''Tokyo'', ce_line = ''Unknown'', ce_eventType = enter,
     ce_latitude = 0, ce_longitude = 0, ce_timestamp = 0, ce_deviceId = ''device_1'', ce_appVersion = ''1.0.0'',
     ce_synced = False, ce_localTimestamp = 0\<rparr>"

definition sample_service :: "nat \<Rightarrow> nat \<Rightarrow> CloudSyncService" where
  "sample_service n errs = \<lparr>syncStatus = \<lparr>isOnline = True, lastSync = None, pendingCount = n,
       syncErrors = errs, totalEventsSynced = 0\<rparr>,
     pendingEvents = replicate n sample_event, cs_deviceId = ''device_1'', offline_storage = None\<rparr>"


definition tokyo_station :: Station where
  "tokyo_station = \<lparr>st_id = 1, st_name = Some ''Tokyo'', st_line = None,
     st_latitude = 35.6812, st_longitude = 139.7671, polygon_data = None\<rparr>"

definition square_ring :: ring where
  "square_ring = [(0, 0), (2, 0), (2, 2), (0, 2), (0, 0)]"

definition square_station :: Station where
  "square_station = \<lparr>st_id = 2, st_name = Some ''Square'', st_line = None,
     st_latitude = 1, st_longitude = 1, polygon_data = Some ''square''\<rparr>"

definition sample_parser :: json_parser where
  "sample_parser s =
     (if s = ''square'' then Inr (PValue \<lparr>gj_type = Some ''Polygon'', gj_coordinates = Some [square_ring]\<rparr>)
      else if s = ''null'' then Inr PNull
      else Inl SyntaxError)"

definition sample_location :: LocationContext where
  "sample_location = \<lparr>lc_latitude = 35.6812, lc_longitude = 139.7671, lc_timestamp = Some 1700000000000,
     lc_accuracy = 10, lc_speed = None, lc_heading = None\<rparr>"

definition sample_clock :: wall_clock where
  "sample_clock = \<lparr>getHours = 8, getDay = 1\<rparr>"

definition numbered_station :: "int \<Rightarrow> Station" where
  "numbered_station i = \<lparr>st_id = i, st_name = None, st_line = None,
     st_latitude = 0, st_longitude = 0, polygon_data = None\<rparr>"

definition three_nearby :: "nearby_station list" where
  "three_nearby = [\<lparr>ns_station = numbered_station 1, ns_distance = 600\<rparr>,
                   \<lparr>ns_station = numbered_station 2, ns_distance = 100\<rparr>,
                   \<lparr>ns_station = numbered_station 3, ns_distance = 1500\<rparr>]"

definition origin :: point where
  "origin = \<lparr>p_latitude = 0, p_longitude = 0\<rparr>"

definition always_ok :: native_plugin where
  "always_ok call = None"

definition scored :: "int \<Rightarrow> real \<Rightarrow> int \<Rightarrow> scored_station" where
  "scored i d sc = \<lparr>ns_station = \<lparr>st_id = i, st_name = None, st_line = None,
     st_latitude = 0, st_longitude = 0, polygon_data = None\<rparr>, ns_distance = d, ns_score = sc\<rparr>"

definition ten_scored :: "scored_station list" where
  "ten_scored = [scored 1 100 95, scored 2 200 90, scored 3 3000 85, scored 4 400 80,
     scored 5 500 75, scored 6 600 70, scored 7 700 65, scored 8 800 60, scored 9 900 40,
     scored 10 1000 30]"

definition pattern_with_speed :: "real \<Rightarrow> MovementPattern" where
  "pattern_with_speed v = \<lparr>averageSpeed = v, primaryDirection = 0, frequentAreas = [],
     timeOfDay = afternoon, dayType = weekend\<rparr>"

text \<open>A walk along a meridian with an empty catalog: the first fix, then two short steps.\<close>

definition first_fix :: GeofenceManagerService where
  "first_fix = manager_updateLocation always_ok sample_parser 1 0 0 (new_GeofenceManagerService [])"

definition slow_walk :: GeofenceManagerService where
  "slow_walk = manager_updateLocation always_ok sample_parser 3 (14 / 1000) 0
                 (manager_updateLocation always_ok sample_parser 2 (7 / 1000) 0 first_fix)"

section \<open>Properties\<close>

subsection \<open>Event sync queue\<close>

lemma performSync_failure:
  assumes "pendingEvents s \<noteq> []" and "result \<noteq> Response True"
  shows "performSync now result s =
           (s\<lparr>syncStatus := (syncStatus s)\<lparr>syncErrors := syncErrors (syncStatus s) + 1\<rparr>\<rparr>,
            [(min 300000 (2 ^ syncErrors (syncStatus s) * 1000), PerformSyncIfOnline)])"
  using assms
  by (cases result)
     (auto simp: performSync_def performSync_begin_def performSync_complete_def Let_def
        updateSyncStatus_def split: bool.splits)

lemma performSync_success:
  assumes "pendingEvents s \<noteq> []"
  shows "performSync now (Response True) s =
           (s\<lparr>pendingEvents := drop (min MAX_BATCH_SIZE (length (pendingEvents s))) (pendingEvents s),
              syncStatus := (syncStatus s)\<lparr>
                lastSync := Some now,
                pendingCount := length (pendingEvents s) - min MAX_BATCH_SIZE (length (pendingEvents s)),
                totalEventsSynced := totalEventsSynced (syncStatus s) + min MAX_BATCH_SIZE (length (pendingEvents s)),
                syncErrors := syncErrors (syncStatus s) - 1\<rparr>,
              offline_storage := Some (drop (min MAX_BATCH_SIZE (length (pendingEvents s))) (pendingEvents s))\<rparr>,
            if drop (min MAX_BATCH_SIZE (length (pendingEvents s))) (pendingEvents s) = [] then []
            else [(1000, PerformSync)])"
  using assms
  by (auto simp: performSync_def performSync_begin_def performSync_complete_def Let_def
      updateSyncStatus_def savePendingEvents_def)

lemma backoff_seconds: "min 300000 (2 ^ e * 1000) = 1000 * min 300 (2 ^ e :: nat)"
  by (simp add: min_def)




text \<open>
  Two flushes in flight at once, as two enqueues while online start them: both fail, and each
  completes from its own snapshot, so the counter rises by one only and both retries get the
  same delay.
\<close>

lemma overlapping_failed_flushes:
  assumes "queueGeofenceEvent now True ev s = Inr (s1, Some rq1)"
    and "queueGeofenceEvent now' True ev' s1 = Inr (s2, Some rq2)"
    and "performSync_complete t HttpError rq1 s2 = (s3, timers1)"
    and "performSync_complete t' HttpError rq2 s3 = (s4, timers2)"
  shows "syncErrors (syncStatus s4) = syncErrors (syncStatus s) + 1 \<and>
         timers1 = [(1000 * min 300 (2 ^ syncErrors (syncStatus s)), PerformSyncIfOnline)] \<and>
         timers2 = timers1"
proof -
  have a: "syncStatus s1 = (syncStatus s)\<lparr>pendingCount := length (pendingEvents s) + 1\<rparr>"
    and r1: "rq_currentStatus rq1 = syncStatus s1"
    using assms(1)
    by (auto simp: queueGeofenceEvent_def performSync_begin_def Let_def updateSyncStatus_def
        savePendingEvents_def split: sum.splits if_splits)
  have r2: "syncErrors (rq_currentStatus rq2) = syncErrors (syncStatus s1)"
    using assms(2)
    by (auto simp: queueGeofenceEvent_def performSync_begin_def Let_def updateSyncStatus_def
        savePendingEvents_def split: sum.splits if_splits)
  have e1: "syncErrors (rq_currentStatus rq1) = syncErrors (syncStatus s)"
    using a r1 by simp
  have e2: "syncErrors (rq_currentStatus rq2) = syncErrors (syncStatus s)"
    using a r2 by simp
  show ?thesis
    using assms(3,4) e1 e2
    by (auto simp: performSync_complete_def Let_def updateSyncStatus_def backoff_seconds)
qed

text \<open>
  Claim C3 (amended). When a flush of a non-empty queue fails (the POST throws or the response
  is not a success), the pending queue and its persisted copy are unchanged, the error counter
  is incremented by one, and exactly one retry is scheduled, with delay
  \<open>min(300, 2^e)\<close> seconds where \<open>e\<close> is the error counter read \<^emph>\<open>before\<close> the failure;
  the retry callback runs \<open>performSync\<close> only when connectivity is reported available.
\<close>

theorem failed_flush_keeps_queue_and_backs_off:
  assumes "pendingEvents s \<noteq> []" and "result \<noteq> Response True"
  shows "pendingEvents (fst (performSync now result s)) = pendingEvents s \<and>
         offline_storage (fst (performSync now result s)) = offline_storage s \<and>
         syncErrors (syncStatus (fst (performSync now result s))) = syncErrors (syncStatus s) + 1 \<and>
         snd (performSync now result s) =
           [(1000 * min 300 (2 ^ syncErrors (syncStatus s)), PerformSyncIfOnline)] \<and>
         fire_timer now' False result' PerformSyncIfOnline (fst (performSync now result s)) =
           (fst (performSync now result s), []) \<and>
         fire_timer now' True result' PerformSyncIfOnline (fst (performSync now result s)) =
           performSync now' result' (fst (performSync now result s))"
  using assms by (simp add: performSync_failure backoff_seconds fire_timer_def)

theorem failed_flush_keeps_queue_and_backs_off_witness:
  "pendingEvents (fst (performSync 0 HttpError (sample_service 2 3))) = [sample_event, sample_event] \<and>
   syncErrors (syncStatus (fst (performSync 0 HttpError (sample_service 2 3)))) = 4 \<and>
   snd (performSync 0 HttpError (sample_service 2 3)) = [(8000, PerformSyncIfOnline)]"
proof -
  have q: "pendingEvents (sample_service 2 3) = [sample_event, sample_event]"
    by (simp add: sample_service_def numeral_2_eq_2)
  have e: "syncErrors (syncStatus (sample_service 2 3)) = 3"
    by (simp add: sample_service_def)
  have a: "pendingEvents (sample_service 2 3) \<noteq> []"
    unfolding q by simp
  have b: "HttpError \<noteq> Response True" by simp
  show ?thesis
    using failed_flush_keeps_queue_and_backs_off [OF a b, of 0 0 HttpError] q e
    by simp
qed

text \<open>
  With no earlier error and one pending event, a failed flush leaves the counter at 1 and
  schedules the retry after 1 second, not after \<open>min(300, 2^1) = 2\<close> seconds.
\<close>

theorem failed_flush_counterexample:
  "syncErrors (syncStatus (fst (performSync 0 HttpError (sample_service 1 0)))) = 1 \<and>
   snd (performSync 0 HttpError (sample_service 1 0)) = [(1000, PerformSyncIfOnline)] \<and>
   snd (performSync 0 HttpError (sample_service 1 0)) \<noteq>
     [(1000 * min 300 (2 ^ syncErrors (syncStatus (fst (performSync 0 HttpError (sample_service 1 0))))),
       PerformSyncIfOnline)]"
  by (simp add: performSync_def performSync_begin_def performSync_complete_def
      sample_service_def Let_def updateSyncStatus_def)



text \<open>
  Claim C10. A successful batch flush lowers the error counter by exactly one, floored at
  zero; it does not reset it. Hence, when the next flush fails, its backoff delay is computed
  from the remaining count: \<open>min(300, 2^(e - 1))\<close> seconds for a counter \<open>e\<close> before the
  success.
\<close>

theorem successful_flush_decrements_errors:
  assumes "pendingEvents s \<noteq> []"
  shows "syncErrors (syncStatus (fst (performSync now (Response True) s))) =
           (if syncErrors (syncStatus s) = 0 then 0 else syncErrors (syncStatus s) - 1) \<and>
         (result \<noteq> Response True \<and> pendingEvents (fst (performSync now (Response True) s)) \<noteq> [] \<longrightarrow>
            snd (performSync now' result (fst (performSync now (Response True) s))) =
              [(1000 * min 300 (2 ^ (syncErrors (syncStatus s) - 1)), PerformSyncIfOnline)])"
proof -
  let ?s' = "fst (performSync now (Response True) s)"
  have e: "syncErrors (syncStatus ?s') = syncErrors (syncStatus s) - 1"
    using assms by (simp add: performSync_success)
  have "snd (performSync now' result ?s') =
          [(1000 * min 300 (2 ^ (syncErrors (syncStatus s) - 1)), PerformSyncIfOnline)]"
    if "result \<noteq> Response True" and "pendingEvents ?s' \<noteq> []"
    using performSync_failure [OF that(2) that(1), of now'] e
    by (simp add: backoff_seconds)
  with e show ?thesis by simp
qed

theorem successful_flush_decrements_errors_witness:
  "syncErrors (syncStatus (fst (performSync 0 (Response True) (sample_service 51 3)))) = 2 \<and>
   snd (performSync 1000 HttpError (fst (performSync 0 (Response True) (sample_service 51 3)))) =
     [(4000, PerformSyncIfOnline)]"
proof -
  have q: "pendingEvents (sample_service 51 3) = replicate 51 sample_event"
    by (simp add: sample_service_def)
  have a: "pendingEvents (sample_service 51 3) \<noteq> []"
    unfolding q by simp
  have c: "pendingEvents (fst (performSync 0 (Response True) (sample_service 51 3))) \<noteq> []"
    using a by (simp add: performSync_success q MAX_BATCH_SIZE_def)
  have e: "syncErrors (syncStatus (sample_service 51 3)) = 3"
    by (simp add: sample_service_def)
  show ?thesis
    using successful_flush_decrements_errors [OF a, of 0 HttpError 1000] c e by simp
qed

subsection \<open>Detection by polling\<close>

lemma calculateDistance_same: "calculateDistance lat lon lat lon = 0"
  by (simp add: calculateDistance_def atan2_def)

text \<open>
  Claim C2. When the station's polygon data parses to a value of type \<open>Polygon\<close> with an
  outer ring, \<open>isInsideStation\<close> returns the point-in-polygon test on that ring; when the
  polygon data is absent or fails to parse, it returns whether the haversine distance from
  the point to the station's coordinates is at most 100 m; it never throws. For a station
  without polygon data and a point at exactly the station's coordinates it returns true.
\<close>

theorem isInsideStation_polygon_or_fallback:
  "(polygon_data station = Some s \<and> parse s = Inr (PValue g) \<and> gj_type g = Some ''Polygon'' \<and>
      gj_coordinates g = Some (r # rs) \<longrightarrow>
      isInsideStation parse pt station = Inr (pointInPolygon pt r)) \<and>
   (polygon_data station = None \<or> (\<exists>t e. polygon_data station = Some t \<and> parse t = Inl e) \<longrightarrow>
      isInsideStation parse pt station =
        Inr (calculateDistance (p_latitude pt) (p_longitude pt)
               (st_latitude station) (st_longitude station) \<le> 100)) \<and>
   (\<exists>b. isInsideStation parse pt station = Inr b) \<and>
   (polygon_data station = None \<and> p_latitude pt = st_latitude station \<and>
      p_longitude pt = st_longitude station \<longrightarrow>
      isInsideStation parse pt station = Inr True)"
proof (intro conjI impI)
  assume "polygon_data station = Some s \<and> parse s = Inr (PValue g) \<and> gj_type g = Some ''Polygon'' \<and>
      gj_coordinates g = Some (r # rs)"
  then show "isInsideStation parse pt station = Inr (pointInPolygon pt r)"
    by (simp add: isInsideStation_def isInsideStation_try_def JSON_parse_def polygon_outer_ring_def)
next
  assume "polygon_data station = None \<or> (\<exists>t e. polygon_data station = Some t \<and> parse t = Inl e)"
  then show "isInsideStation parse pt station =
        Inr (calculateDistance (p_latitude pt) (p_longitude pt)
               (st_latitude station) (st_longitude station) \<le> 100)"
    by (auto simp: isInsideStation_def isInsideStation_try_def JSON_parse_def)
next
  show "\<exists>b. isInsideStation parse pt station = Inr b"
    by (simp add: isInsideStation_def split: sum.splits)
next
  assume "polygon_data station = None \<and> p_latitude pt = st_latitude station \<and>
      p_longitude pt = st_longitude station"
  then show "isInsideStation parse pt station = Inr True"
    by (simp add: isInsideStation_def isInsideStation_try_def JSON_parse_def calculateDistance_same)
qed

theorem isInsideStation_polygon_or_fallback_witness:
  "isInsideStation sample_parser \<lparr>p_latitude = 35.6812, p_longitude = 139.7671\<rparr> tokyo_station = Inr True \<and>
   isInsideStation sample_parser \<lparr>p_latitude = 1, p_longitude = 1\<rparr> square_station = Inr True \<and>
   isInsideStation sample_parser \<lparr>p_latitude = 1, p_longitude = 3\<rparr> square_station = Inr False \<and>
   isInsideStation sample_parser \<lparr>p_latitude = 1, p_longitude = 1\<rparr>
       (square_station\<lparr>polygon_data := Some ''{''\<rparr>) = Inr True"
proof -
  have in_sq: "pointInPolygon \<lparr>p_latitude = 1, p_longitude = 1\<rparr> square_ring"
    by (simp add: pointInPolygon_def pointInPolygon_loop.simps square_ring_def)
  have out_sq: "\<not> pointInPolygon \<lparr>p_latitude = 1, p_longitude = 3\<rparr> square_ring"
    by (simp add: pointInPolygon_def pointInPolygon_loop.simps square_ring_def)
  have a: "isInsideStation sample_parser \<lparr>p_latitude = 35.6812, p_longitude = 139.7671\<rparr> tokyo_station = Inr True"
    using isInsideStation_polygon_or_fallback
      [of tokyo_station "[]" sample_parser "\<lparr>gj_type = None, gj_coordinates = None\<rparr>" "[]" "[]"
          "\<lparr>p_latitude = 35.6812, p_longitude = 139.7671\<rparr>"]
    by (simp add: tokyo_station_def calculateDistance_same)
  have b: "isInsideStation sample_parser pt square_station = Inr (pointInPolygon pt square_ring)" for pt
    using isInsideStation_polygon_or_fallback
      [of square_station "''square''" sample_parser
          "\<lparr>gj_type = Some ''Polygon'', gj_coordinates = Some [square_ring]\<rparr>" square_ring "[]" pt]
    by (simp add: square_station_def sample_parser_def)
  have c: "isInsideStation sample_parser \<lparr>p_latitude = 1, p_longitude = 1\<rparr>
       (square_station\<lparr>polygon_data := Some ''{''\<rparr>) = Inr True"
    using isInsideStation_polygon_or_fallback
      [of "square_station\<lparr>polygon_data := Some ''{''\<rparr>" "[]" sample_parser "\<lparr>gj_type = None, gj_coordinates = None\<rparr>" "[]" "[]"
          "\<lparr>p_latitude = 1, p_longitude = 1\<rparr>"]
    by (simp add: square_station_def sample_parser_def calculateDistance_same)
  show ?thesis using a b in_sq out_sq c by simp
qed

subsection \<open>Movement analyzer\<close>

lemma history_after_update:
  "locationHistory (optimizer_updateLocation now location s) =
     (if length (locationHistory s) + 1 > MAX_LOCATION_HISTORY
      then take MAX_LOCATION_HISTORY (location # locationHistory s)
      else location # locationHistory s)"
  by (simp add: optimizer_updateLocation_def Let_def analyzeMovementPattern_def
      saveLocationHistory_def split_beta)

lemma history_length_after_update:
  "length (locationHistory (optimizer_updateLocation now location s)) =
     min MAX_LOCATION_HISTORY (length (locationHistory s) + 1)"
  by (simp add: history_after_update MAX_LOCATION_HISTORY_def)

lemma pattern_after_update:
  "movementPattern (optimizer_updateLocation now location s) =
     (if length (locationHistory (optimizer_updateLocation now location s)) < 10
      then movementPattern s
      else movementPattern (optimizer_updateLocation now location s)) \<and>
   (length (locationHistory (optimizer_updateLocation now location s)) \<ge> 10 \<longrightarrow>
      movementPattern (optimizer_updateLocation now location s) \<noteq> None)"
  by (simp add: optimizer_updateLocation_def Let_def analyzeMovementPattern_def
      saveLocationHistory_def split_beta)

lemma periodic_analysis_below_ten:
  "length (locationHistory s) < 10 \<Longrightarrow> analyzeMovementPattern now s = s"
  by (simp add: analyzeMovementPattern_def)

lemma pattern_absent_below_ten:
  "movementPattern s = None \<Longrightarrow> length (locationHistory s) + length samples < 10 \<Longrightarrow>
   movementPattern (record_samples samples s) = None"
proof (induction samples arbitrary: s)
  case Nil
  then show ?case by simp
next
  case (Cons a samples)
  obtain now location where a: "a = (now, location)" by (cases a)
  let ?s' = "optimizer_updateLocation now location s"
  have len: "length (locationHistory ?s') = length (locationHistory s) + 1"
    using Cons.prems by (simp add: history_length_after_update MAX_LOCATION_HISTORY_def)
  have "movementPattern ?s' = None"
    using pattern_after_update [of now location s] len Cons.prems by simp
  moreover have "length (locationHistory ?s') + length samples < 10"
    using len Cons.prems by simp
  ultimately show ?case using Cons.IH [of ?s'] a by simp
qed

lemma pattern_present_from_ten:
  "samples \<noteq> [] \<Longrightarrow> length (locationHistory s) + length samples \<ge> 10 \<Longrightarrow>
   movementPattern (record_samples samples s) \<noteq> None"
proof (induction samples arbitrary: s)
  case Nil
  then show ?case by simp
next
  case (Cons a samples)
  obtain now location where a: "a = (now, location)" by (cases a)
  let ?s' = "optimizer_updateLocation now location s"
  have len: "length (locationHistory ?s') = min 1000 (length (locationHistory s) + 1)"
    by (simp add: history_length_after_update MAX_LOCATION_HISTORY_def)
  show ?case
  proof (cases "samples = []")
    case True
    then have "length (locationHistory ?s') \<ge> 10" using len Cons.prems by simp
    then show ?thesis using pattern_after_update [of now location s] a True by simp
  next
    case False
    have "length (locationHistory ?s') + length samples \<ge> 10"
      using len Cons.prems by (simp add: min_def)
    from Cons.IH [OF False this] show ?thesis using a by simp
  qed
qed

lemma record_samples_append:
  "record_samples (xs @ ys) s = record_samples ys (record_samples xs s)"
  by (induction xs arbitrary: s) auto

text \<open>
  Claim C9. Counting the samples of the loaded history together with those recorded since,
  the movement analyzer has no profile while fewer than 10 samples have been recorded, and a
  profile is present after every recording that brings the count to 10 or more; in
  particular, recording the 10th sample turns the profile from absent to present.
\<close>

theorem movement_profile_needs_ten_samples:
  "(length (locationHistory (new_GeofenceOptimizerService stored)) + length samples < 10 \<longrightarrow>
      movementPattern (record_samples samples (new_GeofenceOptimizerService stored)) = None) \<and>
   (samples \<noteq> [] \<and> length (locationHistory (new_GeofenceOptimizerService stored)) + length samples \<ge> 10 \<longrightarrow>
      movementPattern (record_samples samples (new_GeofenceOptimizerService stored)) \<noteq> None) \<and>
   (length (locationHistory (new_GeofenceOptimizerService stored)) + length samples = 9 \<longrightarrow>
      movementPattern (record_samples samples (new_GeofenceOptimizerService stored)) = None \<and>
      movementPattern (record_samples (samples @ [sample]) (new_GeofenceOptimizerService stored)) \<noteq> None)"
proof -
  let ?s0 = "new_GeofenceOptimizerService stored"
  have none: "movementPattern ?s0 = None"
    by (simp add: new_GeofenceOptimizerService_def)
  have a: "movementPattern (record_samples samples ?s0) = None"
    if "length (locationHistory ?s0) + length samples < 10"
    using pattern_absent_below_ten [OF none that] .
  have b: "movementPattern (record_samples xs ?s0) \<noteq> None"
    if "xs \<noteq> []" "length (locationHistory ?s0) + length xs \<ge> 10" for xs
    using pattern_present_from_ten [OF that] .
  have c: "movementPattern (record_samples (samples @ [sample]) ?s0) \<noteq> None"
    if "length (locationHistory ?s0) + length samples = 9"
    using b [of "samples @ [sample]"] that by simp
  show ?thesis using a b c by simp
qed

theorem movement_profile_needs_ten_samples_witness:
  "movementPattern (record_samples (replicate 9 (sample_clock, sample_location))
      (new_GeofenceOptimizerService None)) = None \<and>
   movementPattern (record_samples (replicate 9 (sample_clock, sample_location) @ [(sample_clock, sample_location)])
      (new_GeofenceOptimizerService None)) \<noteq> None \<and>
   movementPattern (record_samples (replicate 10 (sample_clock, sample_location))
      (new_GeofenceOptimizerService None)) \<noteq> None"
proof -
  have h: "locationHistory (new_GeofenceOptimizerService None) = []"
    by (simp add: new_GeofenceOptimizerService_def)
  have r: "replicate 10 (sample_clock, sample_location) \<noteq> []" by simp
  show ?thesis
    using movement_profile_needs_ten_samples
            [of None "replicate 9 (sample_clock, sample_location)" "(sample_clock, sample_location)"]
          movement_profile_needs_ten_samples
            [of None "replicate 10 (sample_clock, sample_location)" "(sample_clock, sample_location)"]
          h r
    by simp
qed

subsection \<open>Region selector and manager\<close>

lemma length_js_slice0: "0 \<le> m \<Longrightarrow> length (js_slice0 m xs) \<le> nat m"
  by (simp add: js_slice0_def)

lemma js_slice0_negative: "js_slice0 (- 1) [a, b] = [a]"
  by (simp add: js_slice0_def)

lemma js_slice0_nat: "js_slice0 (int k) xs = take k xs"
  by (simp add: js_slice0_def min_def)

lemma getMaxRegions_eq: "getMaxRegions = 20"
  by (simp add: getMaxRegions_def MAX_IOS_REGIONS_def)

lemma length_new_regions: "length (new_regions parse now stations location) \<le> getMaxRegions"
  by (simp add: new_regions_def Let_def js_slice0_nat)

lemma activeRegions_updateActiveRegions:
  "activeRegions (snd (updateActiveRegions plugin newRegions s)) =
     (if fst (updateActiveRegions plugin newRegions s) = None then newRegions else activeRegions s)"
  by (simp add: updateActiveRegions_def Let_def invoke_plugin_def saveRegionsToStorage_def
      split: option.splits)

lemma activeRegions_optimize:
  "activeRegions (optimizeGeofenceRegions plugin parse now location s) = activeRegions s \<or>
   activeRegions (optimizeGeofenceRegions plugin parse now location s) =
     new_regions parse now (allStations s) location"
proof -
  let ?s1 = "updateStats (\<lambda>st. st\<lparr>gs_nearbyStations := length (nearby_stations (allStations s) location)\<rparr>) s"
  let ?n = "new_regions parse now (allStations s) location"
  have a: "activeRegions ?s1 = activeRegions s" by (simp add: updateStats_def)
  have "activeRegions (optimizeGeofenceRegions plugin parse now location s) =
          activeRegions (snd (updateActiveRegions plugin ?n ?s1))"
    by (simp add: optimizeGeofenceRegions_def Let_def split_beta updateStats_def
        split: option.splits)
  then show ?thesis
    using activeRegions_updateActiveRegions [of plugin ?n ?s1] a by (auto split: if_splits)
qed

lemma activeRegions_manager_updateLocation:
  "activeRegions (manager_updateLocation plugin parse now lat lng s) = activeRegions s \<or>
   activeRegions (manager_updateLocation plugin parse now lat lng s) =
     new_regions parse now (allStations s) \<lparr>p_latitude = lat, p_longitude = lng\<rparr>"
proof -
  let ?s1 = "s\<lparr>currentLocation := Some \<lparr>p_latitude = lat, p_longitude = lng\<rparr>\<rparr>"
  have "manager_updateLocation plugin parse now lat lng s = ?s1 \<or>
        manager_updateLocation plugin parse now lat lng s =
          optimizeGeofenceRegions plugin parse now \<lparr>p_latitude = lat, p_longitude = lng\<rparr> ?s1"
    by (simp add: manager_updateLocation_def Let_def split: option.splits)
  then show ?thesis
    using activeRegions_optimize [of plugin parse now "\<lparr>p_latitude = lat, p_longitude = lng\<rparr>" ?s1]
    by auto
qed

text \<open>
  Claim C1. For every list of nearby stations, user location, movement profile and capacity
  \<open>maxRegions\<close> (a count, so not negative), \<open>optimizeGeofenceSelection\<close> returns at most
  \<open>maxRegions\<close> regions, whatever the size of the catalog. The manager's optimization pass
  computes at most \<open>getMaxRegions\<close> (20) regions, so the bound on the registered regions
  is kept by every pass and every location update.
\<close>

theorem selection_never_exceeds_capacity:
  "(0 \<le> maxRegions \<longrightarrow>
      int (length (optimizeGeofenceSelection parse now s nearbyStations location maxRegions)) \<le> maxRegions) \<and>
   length (new_regions parse now stations location) \<le> getMaxRegions \<and>
   (length (activeRegions m) \<le> getMaxRegions \<longrightarrow>
      length (activeRegions (optimizeGeofenceRegions plugin parse now location m)) \<le> getMaxRegions \<and>
      length (activeRegions (manager_updateLocation plugin parse now lat lng m)) \<le> getMaxRegions)"
proof (intro conjI impI)
  assume "0 \<le> maxRegions"
  then have "length (optimizeGeofenceSelection parse now s nearbyStations location maxRegions) \<le> nat maxRegions"
    by (simp add: optimizeGeofenceSelection_def Let_def length_js_slice0)
  then show "int (length (optimizeGeofenceSelection parse now s nearbyStations location maxRegions)) \<le> maxRegions"
    using \<open>0 \<le> maxRegions\<close> by linarith
next
  show "length (new_regions parse now stations location) \<le> getMaxRegions"
    by (rule length_new_regions)
next
  assume "length (activeRegions m) \<le> getMaxRegions"
  then show "length (activeRegions (optimizeGeofenceRegions plugin parse now location m)) \<le> getMaxRegions"
    using activeRegions_optimize [of plugin parse now location m]
      length_new_regions [of parse now "allStations m" location] by auto
next
  assume "length (activeRegions m) \<le> getMaxRegions"
  then show "length (activeRegions (manager_updateLocation plugin parse now lat lng m)) \<le> getMaxRegions"
    using activeRegions_manager_updateLocation [of plugin parse now lat lng m]
      length_new_regions [of parse now "allStations m" "\<lparr>p_latitude = lat, p_longitude = lng\<rparr>"] by auto
qed

lemma score_no_profile:
  "st_line (ns_station item) = None \<Longrightarrow>
   calculateStationScore item loc None = js_round (distanceScore (ns_distance item) * 0.4)"
  by (simp add: calculateStationScore_def Let_def lower_or_empty_def line_score_def
      str_yamanote_def str_chuo_def str_sobu_def str_keihin_tohoku_def str_tokaido_def)

lemma selection_of_three: "map (\<lambda>r. st_id (gr_station r)) (optimizeGeofenceSelection sample_parser 0
              (new_GeofenceOptimizerService None) three_nearby origin 2) = [2, 1]"
  by (simp add: optimizeGeofenceSelection_def Let_def three_nearby_def new_GeofenceOptimizerService_def
      score_no_profile numbered_station_def js_round_def distanceScore_def applyContextFiltering_def
      js_slice0_def)

theorem selection_never_exceeds_capacity_witness:
  "length (optimizeGeofenceSelection sample_parser 0 (new_GeofenceOptimizerService None)
             three_nearby origin 2) = 2 \<and>
   length (new_regions sample_parser 0 [] origin) \<le> 20 \<and>
   length (activeRegions (manager_updateLocation always_ok sample_parser 0 0 0
             (new_GeofenceManagerService []))) \<le> 20"
proof -
  have l: "length (optimizeGeofenceSelection sample_parser 0 (new_GeofenceOptimizerService None)
             three_nearby origin 2) \<ge> 2"
    using arg_cong [OF selection_of_three, of length] by simp
  have a: "length (activeRegions (new_GeofenceManagerService [])) \<le> getMaxRegions"
    by (simp add: new_GeofenceManagerService_def)
  show ?thesis
    using selection_never_exceeds_capacity
            [of 2 sample_parser 0 "new_GeofenceOptimizerService None" three_nearby origin "[]"
                "new_GeofenceManagerService []" always_ok 0 0]
          l a getMaxRegions_eq
    by simp
qed

lemma filter_take_descending:
  "sorted (map (\<lambda>s. - ns_score s) xs) \<Longrightarrow>
   filter (\<lambda>s. ns_score s \<ge> c) (take k xs) = take k (filter (\<lambda>s. ns_score s \<ge> c) xs)"
proof (induction xs arbitrary: k)
  case Nil
  then show ?case by simp
next
  case (Cons x xs)
  show ?case
  proof (cases k)
    case 0
    then show ?thesis by simp
  next
    case (Suc k')
    show ?thesis
    proof (cases "ns_score x \<ge> c")
      case True
      then show ?thesis using Cons Suc by simp
    next
      case False
      have below: "\<forall>y \<in> set xs. \<not> ns_score y \<ge> c"
        using Cons.prems False by auto
      then have "filter (\<lambda>s. ns_score s \<ge> c) xs = []"
        by (simp add: filter_empty_conv)
      moreover have "filter (\<lambda>s. ns_score s \<ge> c) (take k' xs) = []"
        using below by (auto simp: filter_empty_conv dest: in_set_takeD)
      ultimately show ?thesis using False Suc by simp
    qed
  qed
qed

text \<open>
  The double arithmetic of \<open>Math.floor(n * 0.7)\<close> against the exact value: for every array
  length the result is \<open>\<lfloor>7 n / 10\<rfloor>\<close> or one less, and for a length that is not a
  multiple of 10 it is exactly \<open>\<lfloor>7 n / 10\<rfloor>\<close>.
\<close>

lemma bit_length_bound: "m < 2 ^ b \<Longrightarrow> bit_length m \<le> b"
proof (induction b arbitrary: m)
  case 0
  then have "m = 0" by simp
  then show ?case by (simp add: bit_length.simps)
next
  case (Suc b)
  show ?case
  proof (cases "m = 0")
    case True
    then show ?thesis by (simp add: bit_length.simps)
  next
    case False
    have "m div 2 < 2 ^ b" using Suc.prems by simp
    then have "bit_length (m div 2) \<le> b" by (rule Suc.IH)
    then show ?thesis using False by (subst bit_length.simps) simp
  qed
qed

lemma round_to_53_bits_cases:
  fixes m :: nat
  defines "s \<equiv> bit_length m - 53"
  shows "round_to_53_bits m = (m div 2 ^ s) * 2 ^ s \<or>
         (round_to_53_bits m = (m div 2 ^ s + 1) * 2 ^ s \<and> 2 ^ s \<le> 2 * (m mod 2 ^ s))"
  unfolding s_def by (auto simp: round_to_53_bits_def Let_def)

lemma round_to_53_bits_upper:
  fixes m :: nat
  shows "2 * round_to_53_bits m \<le> 2 * m + 2 ^ (bit_length m - 53)"
proof -
  define s where "s = bit_length m - 53"
  define d :: nat where "d = 2 ^ s"
  have dm: "(m div d) * d + m mod d = m" by simp
  from round_to_53_bits_cases [of m] consider
    "round_to_53_bits m = (m div d) * d" |
    "round_to_53_bits m = (m div d + 1) * d" "d \<le> 2 * (m mod d)"
    unfolding s_def d_def by blast
  then have "2 * round_to_53_bits m \<le> 2 * m + d"
  proof cases
    case 1
    then have "round_to_53_bits m \<le> m" using dm by linarith
    then show ?thesis by simp
  next
    case 2
    have "round_to_53_bits m = (m div d) * d + d" using 2(1) by (simp add: algebra_simps)
    then have "round_to_53_bits m + m mod d = m + d" using dm by linarith
    then show ?thesis using 2(2) by linarith
  qed
  then show ?thesis by (simp add: d_def s_def)
qed

lemma round_to_53_bits_lower:
  fixes m k :: nat
  assumes "bit_length m - 53 \<le> 52" and "k * 2 ^ 52 \<le> m"
  shows "k * 2 ^ 52 \<le> round_to_53_bits m"
proof -
  define s where "s = bit_length m - 53"
  define d :: nat where "d = 2 ^ s"
  define e :: nat where "e = 2 ^ (52 - s)"
  have s52: "s \<le> 52" using assms(1) by (simp add: s_def)
  have split: "(2::nat) ^ 52 = e * d"
    unfolding e_def d_def using s52 by (simp only: power_add [symmetric]) simp
  have dpos: "0 < d" by (simp add: d_def)
  have "(k * e) * d \<le> m" using assms(2) unfolding split by (simp only: mult.assoc)
  then have "k * e \<le> m div d"
    using dpos by (simp only: less_eq_div_iff_mult_less_eq)
  then have "(k * e) * d \<le> (m div d) * d" by (rule mult_le_mono1)
  then have a: "k * 2 ^ 52 \<le> (m div d) * d" unfolding split by (simp only: mult.assoc)
  from round_to_53_bits_cases [of m] have "(m div d) * d \<le> round_to_53_bits m"
    unfolding s_def d_def by auto
  then show ?thesis using a by (rule order_trans [rotated])
qed

lemma floor_times_0_7_bounds:
  assumes "n < 2 ^ 32"
  shows "floor_times_0_7 n \<le> 7 * n div 10"
    and "7 * n div 10 \<le> floor_times_0_7 n + 1"
    and "n mod 10 \<noteq> 0 \<Longrightarrow> floor_times_0_7 n = 7 * n div 10"
proof -
  define P :: nat where "P = 2 ^ 52"
  define m where "m = n * 3152519739159347"
  define R where "R = round_to_53_bits m"
  define k where "k = 7 * n div 10"
  define j where "j = 7 * n mod 10"
  have Pval: "P = 4503599627370496" by (simp add: P_def)
  have fl: "floor_times_0_7 n = R div P"
    by (simp add: floor_times_0_7_def R_def m_def P_def)
  have nb: "n < 4294967296" using assms by simp
  have "m < 4294967296 * 4503599627370496"
    unfolding m_def using nb by (intro mult_strict_mono) simp_all
  also have "\<dots> = (2::nat) ^ 84" by simp
  finally have "bit_length m \<le> 84" by (rule bit_length_bound)
  then have s31: "bit_length m - 53 \<le> 31" by simp
  then have "(2::nat) ^ (bit_length m - 53) \<le> 2 ^ 31"
    by (intro power_increasing) simp_all
  then have ulp: "(2::nat) ^ (bit_length m - 53) \<le> 2147483648" by simp
  have up: "2 * R \<le> 2 * m + 2147483648"
    using round_to_53_bits_upper [of m] ulp unfolding R_def by linarith
  have seven: "7 * n = 10 * k + j" and jb: "j < 10"
    by (simp_all add: k_def j_def)
  have id1: "10 * m + 2 * n = 7 * (n * P)"
    by (simp add: m_def Pval)
  have id2: "7 * (n * P) = 10 * (k * P) + j * P"
  proof -
    have "7 * (n * P) = (7 * n) * P" by simp
    also have "\<dots> = (10 * k + j) * P" by (simp only: seven)
    also have "\<dots> = 10 * (k * P) + j * P" by (simp add: algebra_simps)
    finally show ?thesis .
  qed
  have jP: "j * P \<le> 9 * P" using jb by simp
  have "R < (k + 1) * P"
  proof -
    have "20 * R \<le> 20 * m + 21474836480" using up by linarith
    moreover have "20 * m + 4 * n = 20 * (k * P) + 2 * (j * P)" using id1 id2 by linarith
    ultimately have "20 * R < 20 * (k * P) + 20 * P" using jP Pval by linarith
    then show ?thesis by (simp add: algebra_simps)
  qed
  then have "R div P < k + 1" by (rule less_mult_imp_div_less)
  then show upper: "floor_times_0_7 n \<le> 7 * n div 10"
    unfolding fl k_def by simp
  have Ppos: "0 < P" by (simp add: Pval)
  have s52: "bit_length m - 53 \<le> 52" using s31 by simp
  have lower: "k' \<le> R div P" if "k' * P \<le> m" for k'
  proof -
    have "k' * 2 ^ 52 \<le> round_to_53_bits m"
      using round_to_53_bits_lower [OF s52, of k'] that by (simp add: P_def)
    then have "k' * P \<le> R" by (simp add: R_def P_def)
    then show ?thesis using Ppos by (simp only: less_eq_div_iff_mult_less_eq)
  qed
  have "(k - 1) * P \<le> m"
  proof (cases "k = 0")
    case True
    then show ?thesis by simp
  next
    case False
    then have "(k - 1) * P + P = k * P" by (simp add: algebra_simps)
    moreover have "10 * m + 2 * n \<ge> 10 * (k * P)" using id1 id2 by linarith
    ultimately show ?thesis using nb Pval by linarith
  qed
  then have "k - 1 \<le> R div P" by (rule lower)
  then show "7 * n div 10 \<le> floor_times_0_7 n + 1"
    unfolding fl k_def by simp
  show "floor_times_0_7 n = 7 * n div 10" if "n mod 10 \<noteq> 0"
  proof -
    have "j \<noteq> 0" using that unfolding j_def by presburger
    then have "P \<le> j * P" by simp
    then have "10 * m + 2 * n \<ge> 10 * (k * P) + P" using id1 id2 by linarith
    then have "k * P \<le> m" using nb Pval by linarith
    then have "k \<le> R div P" by (rule lower)
    then show ?thesis using upper unfolding fl k_def by simp
  qed
qed

lemma floor_times_0_7_10: "floor_times_0_7 10 = 7"
  by (simp add: floor_times_0_7_def round_to_53_bits_def bit_length.simps Let_def)

lemma floor_times_0_7_90: "floor_times_0_7 90 = 62"
  by (simp add: floor_times_0_7_def round_to_53_bits_def bit_length.simps Let_def)

text \<open>
  Claim C6. In the context filter, an average speed above 20 m/s reduces the scored list to
  the candidates with score at least 50 and drops the bottom 30 per cent by count, the count
  being taken on the scored list before the score filter: of the candidates that score at
  least 50, the first \<open>Math.floor(n * 0.7)\<close> are kept, \<open>n\<close> being the number of scored
  candidates. That number is \<open>\<lfloor>7 n / 10\<rfloor>\<close> or, in double arithmetic, one less for some
  multiples of 10, so never more than 70 per cent of the scored list are kept, and when every
  candidate scores at least 50 exactly that many are kept. On the list sorted by descending
  score, which is what the selector passes in, the result is the list without its last
  \<open>n - Math.floor(n * 0.7)\<close> candidates and without those scoring below 50. An average
  speed below 2 m/s reduces the list to the candidates within 2000 m. Otherwise, and without
  a profile, the list is unchanged.
\<close>

theorem context_filter_by_speed:
  "(averageSpeed p > 20 \<longrightarrow>
      applyContextFiltering stations (Some p) =
        take (floor_times_0_7 (length stations)) (filter (\<lambda>s. ns_score s \<ge> 50) stations) \<and>
      (sorted (map (\<lambda>s. - ns_score s) stations) \<longrightarrow>
         applyContextFiltering stations (Some p) =
           filter (\<lambda>s. ns_score s \<ge> 50) (take (floor_times_0_7 (length stations)) stations)) \<and>
      (length stations < 2 ^ 32 \<longrightarrow>
         floor_times_0_7 (length stations) \<le> 7 * length stations div 10 \<and>
         7 * length stations div 10 \<le> floor_times_0_7 (length stations) + 1 \<and>
         (length stations mod 10 \<noteq> 0 \<longrightarrow>
            floor_times_0_7 (length stations) = 7 * length stations div 10) \<and>
         length (applyContextFiltering stations (Some p)) \<le> 7 * length stations div 10 \<and>
         ((\<forall>s \<in> set stations. ns_score s \<ge> 50) \<longrightarrow>
            length (applyContextFiltering stations (Some p)) = floor_times_0_7 (length stations)))) \<and>
   (averageSpeed p < 2 \<longrightarrow>
      applyContextFiltering stations (Some p) = filter (\<lambda>s. ns_distance s \<le> 2000) stations) \<and>
   (2 \<le> averageSpeed p \<and> averageSpeed p \<le> 20 \<longrightarrow>
      applyContextFiltering stations (Some p) = stations) \<and>
   applyContextFiltering stations None = stations"
proof -
  let ?n = "length stations"
  let ?k = "floor_times_0_7 ?n"
  let ?q = "filter (\<lambda>s. ns_score s \<ge> 50) stations"
  have fast: "applyContextFiltering stations (Some p) = take ?k ?q" if "averageSpeed p > 20"
    using that by (simp add: applyContextFiltering_def js_slice0_nat)
  have srt: "applyContextFiltering stations (Some p) = filter (\<lambda>s. ns_score s \<ge> 50) (take ?k stations)"
    if "averageSpeed p > 20" "sorted (map (\<lambda>s. - ns_score s) stations)"
    using fast [OF that(1)] filter_take_descending [OF that(2), of 50 ?k] by simp
  have len: "length (applyContextFiltering stations (Some p)) \<le> 7 * ?n div 10"
    if "averageSpeed p > 20" "?n < 2 ^ 32"
    using fast [OF that(1)] floor_times_0_7_bounds(1) [OF that(2)] by simp
  have full: "length (applyContextFiltering stations (Some p)) = ?k"
    if "averageSpeed p > 20" "?n < 2 ^ 32" "\<forall>s \<in> set stations. ns_score s \<ge> 50"
  proof -
    have "?q = stations" using that(3) by simp
    moreover have "?k \<le> ?n" using floor_times_0_7_bounds(1) [OF that(2)] by linarith
    ultimately show ?thesis using fast [OF that(1)] by simp
  qed
  have slow: "applyContextFiltering stations (Some p) = filter (\<lambda>s. ns_distance s \<le> 2000) stations"
    if "averageSpeed p < 2"
    using that by (simp add: applyContextFiltering_def)
  have mid: "applyContextFiltering stations (Some p) = stations"
    if "2 \<le> averageSpeed p \<and> averageSpeed p \<le> 20"
    using that by (simp add: applyContextFiltering_def)
  have none: "applyContextFiltering stations None = stations"
    by (simp add: applyContextFiltering_def)
  show ?thesis
    using fast srt len full slow mid none floor_times_0_7_bounds [of ?n]
    by blast
qed

theorem context_filter_by_speed_witness:
  "applyContextFiltering ten_scored (Some (pattern_with_speed 25)) =
     [scored 1 100 95, scored 2 200 90, scored 3 3000 85, scored 4 400 80,
      scored 5 500 75, scored 6 600 70, scored 7 700 65] \<and>
   length (applyContextFiltering (replicate 90 (scored 1 100 90)) (Some (pattern_with_speed 25))) = 62 \<and>
   applyContextFiltering ten_scored (Some (pattern_with_speed 1)) =
     [scored 1 100 95, scored 2 200 90, scored 4 400 80, scored 5 500 75, scored 6 600 70,
      scored 7 700 65, scored 8 800 60, scored 9 900 40, scored 10 1000 30] \<and>
   applyContextFiltering ten_scored (Some (pattern_with_speed 5)) = ten_scored"
proof -
  have s: "sorted (map (\<lambda>s. - ns_score s) ten_scored)"
    by (simp add: ten_scored_def scored_def)
  have l: "length ten_scored = 10" by (simp add: ten_scored_def)
  have fast: "averageSpeed (pattern_with_speed 25) > 20"
    and slow: "averageSpeed (pattern_with_speed 1) < 2"
    and mid: "2 \<le> averageSpeed (pattern_with_speed 5) \<and> averageSpeed (pattern_with_speed 5) \<le> 20"
    by (simp_all add: pattern_with_speed_def)
  have k10: "floor_times_0_7 10 = 7" by (rule floor_times_0_7_10)
  have "applyContextFiltering ten_scored (Some (pattern_with_speed 25)) =
          filter (\<lambda>s. ns_score s \<ge> 50) (take (floor_times_0_7 (length ten_scored)) ten_scored)"
    using context_filter_by_speed [of "pattern_with_speed 25" ten_scored] fast s by blast
  also have "\<dots> = [scored 1 100 95, scored 2 200 90, scored 3 3000 85, scored 4 400 80,
      scored 5 500 75, scored 6 600 70, scored 7 700 65]"
    unfolding l k10 by (simp add: ten_scored_def scored_def)
  finally have a: "applyContextFiltering ten_scored (Some (pattern_with_speed 25)) =
     [scored 1 100 95, scored 2 200 90, scored 3 3000 85, scored 4 400 80,
      scored 5 500 75, scored 6 600 70, scored 7 700 65]" .
  have all90: "\<forall>s \<in> set (replicate 90 (scored 1 100 90)). ns_score s \<ge> 50"
    by (simp add: scored_def)
  have "length (applyContextFiltering (replicate 90 (scored 1 100 90)) (Some (pattern_with_speed 25))) =
          floor_times_0_7 (length (replicate 90 (scored 1 100 90)))"
    using context_filter_by_speed [of "pattern_with_speed 25" "replicate 90 (scored 1 100 90)"] fast all90
    by simp
  then have n90: "length (applyContextFiltering (replicate 90 (scored 1 100 90)) (Some (pattern_with_speed 25))) = 62"
    by (simp add: floor_times_0_7_90)
  have b: "applyContextFiltering ten_scored (Some (pattern_with_speed 1)) =
     [scored 1 100 95, scored 2 200 90, scored 4 400 80, scored 5 500 75, scored 6 600 70,
      scored 7 700 65, scored 8 800 60, scored 9 900 40, scored 10 1000 30]"
    using context_filter_by_speed [of "pattern_with_speed 1" ten_scored] slow
    by (simp add: ten_scored_def scored_def)
  have c: "applyContextFiltering ten_scored (Some (pattern_with_speed 5)) = ten_scored"
    using context_filter_by_speed [of "pattern_with_speed 5" ten_scored] mid by simp
  show ?thesis using a n90 b c by simp
qed

lemma line_score_empty: "line_score [] = 0"
  by (simp add: line_score_def str_yamanote_def str_chuo_def str_sobu_def
      str_keihin_tohoku_def str_tokaido_def)

lemma line_priority_empty: "line_priority [] = 10"
  by (simp add: line_priority_def str_yamanote_def str_chuo_def str_sobu_def
      str_keihin_tohoku_def str_tokaido_def)

lemma not_major_empty: "\<not> major_station_name []"
  by (simp add: major_station_name_def str_shinjuku_def str_tokyo_def str_shibuya_def
      str_shinagawa_def)

lemma priority_of_prioritized:
  "x \<in> set (prioritizeStations nearbyStations location) \<Longrightarrow>
   ns_priority x = distance_priority (ns_distance x) +
     line_priority (lower_or_empty (st_line (ns_station x))) +
     (if major_station_name (lower_or_empty (st_name (ns_station x))) then 25 else 0)"
  by (auto simp: prioritizeStations_def Let_def)

lemma score_split:
  "\<exists>rest. \<forall>d. calculateStationScore (item\<lparr>ns_distance := d\<rparr>) loc pattern =
      js_round (max 0 ((10000 - d) / 10000 * 100) * 0.4 + rest)"
proof (cases pattern)
  case None
  show ?thesis
    by (rule exI [of _ "line_score (lower_or_empty (st_line (ns_station item)))"])
       (simp add: None calculateStationScore_def Let_def distanceScore_def)
next
  case (Some p)
  let ?s0 = "calculateStationScore (item\<lparr>ns_distance := 10000\<rparr>) loc pattern"
  define st where "st = ns_station item"
  define align where "align = max 0 ((180 - min \<bar>calculateBearing (p_latitude loc)
      (p_longitude loc) (st_latitude st) (st_longitude st) - primaryDirection p\<bar>
      (360 - \<bar>calculateBearing (p_latitude loc)
      (p_longitude loc) (st_latitude st) (st_longitude st) - primaryDirection p\<bar>)) / 180 * 100) * 0.2"
  define freq :: real where "freq = (if length (frequentAreas p) > 0 \<and>
      list_ex (\<lambda>area. calculateDistance (st_latitude st) (st_longitude st)
         (fa_lat area) (fa_lng area) \<le> 500) (frequentAreas p) then 30 else 0)"
  define rush :: real where "rush = (if (timeOfDay p = morning \<or> timeOfDay p = evening) \<and> dayType p = weekday
      \<and> major_station_name (lower_or_empty (st_name st)) then 20 else 0)"
  define fast :: real where "fast = (if averageSpeed p > 10 then 10 else 0)"
  show ?thesis
    by (rule exI [of _ "align + freq + line_score (lower_or_empty (st_line st)) + rush + fast"])
       (auto simp: Some calculateStationScore_def Let_def distanceScore_def st_def align_def
          freq_def rush_def fast_def add.assoc)
qed

text \<open>
  Claim C5 (amended). In the manager's \<open>prioritizeStations\<close> the distance component of
  the priority is piecewise by threshold (at most 500 m: 100, at most 1000 m: 80, at most
  2000 m: 60, at most 5000 m: 40, otherwise 20) and enters at full weight, next to the line
  and station-name bonuses. In the selector's \<open>calculateStationScore\<close> the distance
  component is linear, \<open>max(0, (10000 - d) / 10000 * 100)\<close>, and is weighted 40 per cent
  whether or not a movement profile is present; everything else in the score does not depend
  on the distance.
\<close>

theorem distance_component_of_scores:
  "(\<forall>x \<in> set (prioritizeStations nearbyStations location).
      ns_priority x =
        (if ns_distance x \<le> 500 then 100
         else if ns_distance x \<le> 1000 then 80
         else if ns_distance x \<le> 2000 then 60
         else if ns_distance x \<le> 5000 then 40
         else 20) +
        line_priority (lower_or_empty (st_line (ns_station x))) +
        (if major_station_name (lower_or_empty (st_name (ns_station x))) then 25 else 0)) \<and>
   (\<exists>rest. \<forall>d. calculateStationScore (item\<lparr>ns_distance := d\<rparr>) loc pattern =
      js_round (max 0 ((10000 - d) / 10000 * 100) * 0.4 + rest))"
  using score_split [of item loc pattern]
  by (auto simp: priority_of_prioritized distance_priority_def)

theorem distance_component_of_scores_witness:
  "map ns_priority (prioritizeStations three_nearby origin) = [110, 90, 70]"
proof -
  let ?f = "\<lambda>x. (if ns_distance x \<le> 500 then 100
         else if ns_distance x \<le> 1000 then 80
         else if ns_distance x \<le> 2000 then 60
         else if ns_distance x \<le> 5000 then 40
         else 20) +
        line_priority (lower_or_empty (st_line (ns_station x))) +
        (if major_station_name (lower_or_empty (st_name (ns_station x))) then 25 else (0::int))"
  have "\<forall>x \<in> set (prioritizeStations three_nearby origin). ns_priority x = ?f x"
    using distance_component_of_scores
            [of three_nearby origin "\<lparr>ns_station = numbered_station 1, ns_distance = 0\<rparr>" origin None]
    by blast
  then have "map ns_priority (prioritizeStations three_nearby origin) =
             map ?f (prioritizeStations three_nearby origin)"
    by simp
  also have "\<dots> = [110, 90, 70]"
    by (simp add: prioritizeStations_def three_nearby_def numbered_station_def Let_def
        distance_priority_def lower_or_empty_def line_priority_empty not_major_empty)
  finally show ?thesis .
qed

text \<open>
  Without a profile, a station 600 m away on no recognised line scores
  \<open>round(94 * 0.4) = 38\<close>, not the 80 of the threshold table at full weight.
\<close>

theorem selector_distance_score_counterexample:
  "calculateStationScore \<lparr>ns_station = numbered_station 1, ns_distance = 600\<rparr> origin None = 38 \<and>
   calculateStationScore \<lparr>ns_station = numbered_station 1, ns_distance = 600\<rparr> origin None \<noteq> 80"
  by (simp add: calculateStationScore_def Let_def numbered_station_def lower_or_empty_def
      line_score_empty distanceScore_def js_round_def)

lemma polygon_radius_no_data: "polygon_data st = None \<Longrightarrow> polygon_radius parse st = Inl SyntaxError"
  by (simp add: polygon_radius_def JSON_parse_def)

lemma Min_insert_min:
  "finite S \<Longrightarrow> Min (insert (min a y) S) = Min (insert (a::real) (insert y S))"
  by (cases "S = {}") (simp_all add: min.assoc)

lemma Max_insert_max:
  "finite S \<Longrightarrow> Max (insert (max a y) S) = Max (insert (a::real) (insert y S))"
  by (cases "S = {}") (simp_all add: max.assoc)

lemma bounding_box_fold:
  "foldl (\<lambda>(minLat, maxLat, minLng, maxLng) coord.
              (min minLat (snd coord), max maxLat (snd coord),
               min minLng (fst coord), max maxLng (fst coord))) (a, b, c, d) (coords :: ring) =
     (Min (insert a (snd ` set coords)), Max (insert b (snd ` set coords)),
      Min (insert c (fst ` set coords)), Max (insert d (fst ` set coords)))"
proof (induction coords arbitrary: a b c d)
  case Nil
  then show ?case by simp
next
  case (Cons x xs)
  show ?case
    by (simp add: Cons.IH Min_insert_min Max_insert_max)
qed

lemma bounding_box_eq:
  "bounding_box c0 (c0 # cs) =
     (Min (snd ` set (c0 # cs)), Max (snd ` set (c0 # cs)),
      Min (fst ` set (c0 # cs)), Max (fst ` set (c0 # cs)))"
  unfolding bounding_box_def bounding_box_fold by (simp add: insert_absorb2)

lemma polygon_radius_of_ring:
  assumes "polygon_data st = Some txt" and "parse txt = Inr (PValue g)"
    and "gj_type g = Some ''Polygon''" and "gj_coordinates g = Some ((c0 # cs) # rings)"
  shows "polygon_radius parse st =
     Inr (Some (max (calculateDistance (Min (snd ` set (c0 # cs))) (st_longitude st)
                       (Max (snd ` set (c0 # cs))) (st_longitude st))
                    (calculateDistance (st_latitude st) (Min (fst ` set (c0 # cs)))
                       (st_latitude st) (Max (fst ` set (c0 # cs)))) / 2))"
proof -
  have "polygon_radius parse st =
     (let (minLat, maxLat, minLng, maxLng) = bounding_box c0 (c0 # cs);
          latDistance = calculateDistance minLat (st_longitude st) maxLat (st_longitude st);
          lngDistance = calculateDistance (st_latitude st) minLng (st_latitude st) maxLng;
          polygonRadius = max latDistance lngDistance / 2
      in Inr (Some polygonRadius))"
    using assms by (simp add: polygon_radius_def JSON_parse_def polygon_outer_ring_def)
  then show ?thesis
    unfolding bounding_box_eq by (simp only: Let_def split_conv)
qed

lemma polygon_radius_unusable:
  assumes "polygon_data st = None \<or> (\<exists>t e. polygon_data st = Some t \<and> parse t = Inl e)"
  shows "polygon_radius parse st \<noteq> Inr (Some r)"
  using assms by (auto simp: polygon_radius_def JSON_parse_def)

lemma dynamic_radius_cases:
  "calculateDynamicRadius parse item pattern =
     (let base = (if ns_distance item > 5000 then 150 else if ns_distance item > 2000 then 120
                  else if ns_distance item < 500 then 80 else 100) +
                 (case pattern of None \<Rightarrow> 0
                  | Some p \<Rightarrow> if averageSpeed p > 15 then 50 else if averageSpeed p < 1 then - 20 else 0)
      in case polygon_radius parse (ns_station item) of
           Inr (Some r) \<Rightarrow> max (max base (r + 30)) 50
         | Inr None \<Rightarrow> max base 50
         | Inl e \<Rightarrow> max base 50)"
proof (cases pattern)
  case None
  then show ?thesis
    by (simp add: calculateDynamicRadius_def Let_def split: sum.split option.split split del: if_split cong: if_cong)
next
  case (Some p)
  have adj: "(if averageSpeed p > 15 then b + 50 else if averageSpeed p < 1 then b - 20 else b) =
             b + (if averageSpeed p > 15 then 50 else if averageSpeed p < 1 then - 20 else 0)" for b :: real
    by simp
  show ?thesis
    by (simp add: Some calculateDynamicRadius_def Let_def adj split: sum.split option.split split del: if_split cong: if_cong)
qed

text \<open>
  Claim C7 (amended). In the manager (\<open>calculateOptimalRadius\<close>) a station without a usable
  polygon gets the radius of its distance tier (at most 500 m: 80, at most 1000 m: 100, at
  most 2000 m: 120, at most 5000 m: 150, beyond: 200), with no adjustment for movement; with a
  usable polygon the radius is half the longer side of the boundary's bounding box plus 30 m,
  floored at 50 m. In the selector (\<open>calculateDynamicRadius\<close>) the base radius is 80 below
  500 m, 100 up to 2000 m, 120 up to 5000 m and 150 beyond, plus 50 m when the profile's
  average speed exceeds 15 m/s or minus 20 m when it is below 1 m/s; a usable polygon raises
  it to at least half the longer bounding-box side plus 30 m. Neither radius is ever below
  50 m. Polygon data that is absent or does not parse is not usable.
\<close>

theorem radius_rules:
  "((\<forall>r. polygon_radius parse st \<noteq> Inr (Some r)) \<longrightarrow>
      calculateOptimalRadius parse st d =
        (if d \<le> 500 then 80 else if d \<le> 1000 then 100 else if d \<le> 2000 then 120
         else if d \<le> 5000 then 150 else 200)) \<and>
   (polygon_radius parse st = Inr (Some r) \<longrightarrow>
      calculateOptimalRadius parse st d = max (r + 30) 50) \<and>
   ((\<forall>r. polygon_radius parse (ns_station item) \<noteq> Inr (Some r)) \<longrightarrow>
      calculateDynamicRadius parse item pattern =
        max ((if ns_distance item > 5000 then 150 else if ns_distance item > 2000 then 120
              else if ns_distance item < 500 then 80 else 100) +
             (case pattern of None \<Rightarrow> 0
              | Some p \<Rightarrow> if averageSpeed p > 15 then 50 else if averageSpeed p < 1 then - 20 else 0))
            50) \<and>
   (polygon_radius parse (ns_station item) = Inr (Some r) \<longrightarrow>
      calculateDynamicRadius parse item pattern =
        max (max ((if ns_distance item > 5000 then 150 else if ns_distance item > 2000 then 120
                   else if ns_distance item < 500 then 80 else 100) +
                  (case pattern of None \<Rightarrow> 0
                   | Some p \<Rightarrow> if averageSpeed p > 15 then 50 else if averageSpeed p < 1 then - 20 else 0))
                 (r + 30))
            50) \<and>
   50 \<le> calculateOptimalRadius parse st d \<and>
   50 \<le> calculateDynamicRadius parse item pattern \<and>
   (polygon_data st = Some txt \<and> parse txt = Inr (PValue g) \<and> gj_type g = Some ''Polygon'' \<and>
    gj_coordinates g = Some ((c0 # cs) # rings) \<longrightarrow>
      polygon_radius parse st =
        Inr (Some (max (calculateDistance (Min (snd ` set (c0 # cs))) (st_longitude st)
                          (Max (snd ` set (c0 # cs))) (st_longitude st))
                       (calculateDistance (st_latitude st) (Min (fst ` set (c0 # cs)))
                          (st_latitude st) (Max (fst ` set (c0 # cs)))) / 2))) \<and>
   (polygon_data st = None \<or> (\<exists>t e. polygon_data st = Some t \<and> parse t = Inl e) \<longrightarrow>
      (\<forall>r. polygon_radius parse st \<noteq> Inr (Some r)))"
proof (intro conjI impI)
  assume "\<forall>r. polygon_radius parse st \<noteq> Inr (Some r)"
  then show "calculateOptimalRadius parse st d =
        (if d \<le> 500 then 80 else if d \<le> 1000 then 100 else if d \<le> 2000 then 120
         else if d \<le> 5000 then 150 else 200)"
    by (simp add: calculateOptimalRadius_def split: sum.split option.split split del: if_split cong: if_cong)
next
  assume "polygon_radius parse st = Inr (Some r)"
  then show "calculateOptimalRadius parse st d = max (r + 30) 50"
    by (simp add: calculateOptimalRadius_def)
next
  assume "\<forall>r. polygon_radius parse (ns_station item) \<noteq> Inr (Some r)"
  then show "calculateDynamicRadius parse item pattern =
        max ((if ns_distance item > 5000 then 150 else if ns_distance item > 2000 then 120
              else if ns_distance item < 500 then 80 else 100) +
             (case pattern of None \<Rightarrow> 0
              | Some p \<Rightarrow> if averageSpeed p > 15 then 50 else if averageSpeed p < 1 then - 20 else 0))
            50"
    by (simp add: dynamic_radius_cases Let_def split: sum.split option.split split del: if_split cong: if_cong)
next
  assume "polygon_radius parse (ns_station item) = Inr (Some r)"
  then show "calculateDynamicRadius parse item pattern =
        max (max ((if ns_distance item > 5000 then 150 else if ns_distance item > 2000 then 120
                   else if ns_distance item < 500 then 80 else 100) +
                  (case pattern of None \<Rightarrow> 0
                   | Some p \<Rightarrow> if averageSpeed p > 15 then 50 else if averageSpeed p < 1 then - 20 else 0))
                 (r + 30))
            50"
    by (simp add: dynamic_radius_cases Let_def split del: if_split cong: if_cong)
next
  show "50 \<le> calculateOptimalRadius parse st d"
    by (simp add: calculateOptimalRadius_def split: sum.splits option.splits)
next
  show "50 \<le> calculateDynamicRadius parse item pattern"
    by (simp add: calculateDynamicRadius_def Let_def)
next
  assume "polygon_data st = Some txt \<and> parse txt = Inr (PValue g) \<and> gj_type g = Some ''Polygon'' \<and>
    gj_coordinates g = Some ((c0 # cs) # rings)"
  then show "polygon_radius parse st =
        Inr (Some (max (calculateDistance (Min (snd ` set (c0 # cs))) (st_longitude st)
                          (Max (snd ` set (c0 # cs))) (st_longitude st))
                       (calculateDistance (st_latitude st) (Min (fst ` set (c0 # cs)))
                          (st_latitude st) (Max (fst ` set (c0 # cs)))) / 2))"
    using polygon_radius_of_ring by blast
next
  assume "polygon_data st = None \<or> (\<exists>t e. polygon_data st = Some t \<and> parse t = Inl e)"
  then show "\<forall>r. polygon_radius parse st \<noteq> Inr (Some r)"
    using polygon_radius_unusable by blast
qed

theorem radius_rules_witness:
  "calculateOptimalRadius sample_parser (numbered_station 1) 1500 = 120 \<and>
   calculateDynamicRadius sample_parser \<lparr>ns_station = numbered_station 1, ns_distance = 1500\<rparr>
     (Some (pattern_with_speed 25)) = 150 \<and>
   calculateOptimalRadius sample_parser square_station 1500 =
     max (max (calculateDistance 0 1 2 1) (calculateDistance 1 0 1 2) / 2 + 30) 50 \<and>
   calculateDynamicRadius sample_parser \<lparr>ns_station = square_station, ns_distance = 1500\<rparr> None =
     max (max 100 (max (calculateDistance 0 1 2 1) (calculateDistance 1 0 1 2) / 2 + 30)) 50"
proof -
  let ?r = "max (calculateDistance 0 1 2 1) (calculateDistance 1 0 1 2) / 2"
  have n: "polygon_data (numbered_station 1) = None"
    by (simp add: numbered_station_def)
  have sq: "polygon_data square_station = Some ''square'' \<and>
      sample_parser ''square'' = Inr (PValue \<lparr>gj_type = Some ''Polygon'', gj_coordinates = Some [square_ring]\<rparr>) \<and>
      gj_type \<lparr>gj_type = Some ''Polygon'', gj_coordinates = Some [square_ring]\<rparr> = Some ''Polygon'' \<and>
      gj_coordinates \<lparr>gj_type = Some ''Polygon'', gj_coordinates = Some [square_ring]\<rparr> =
        Some (((0, 0) # [(2, 0), (2, 2), (0, 2), (0, 0)]) # [])"
    by (simp add: square_station_def sample_parser_def square_ring_def)
  have mm: "Min (snd ` set ((0::real, 0::real) # [(2, 0), (2, 2), (0, 2), (0, 0)])) = 0"
       "Max (snd ` set ((0::real, 0::real) # [(2, 0), (2, 2), (0, 2), (0, 0)])) = 2"
       "Min (fst ` set ((0::real, 0::real) # [(2, 0), (2, 2), (0, 2), (0, 0)])) = 0"
       "Max (fst ` set ((0::real, 0::real) # [(2, 0), (2, 2), (0, 2), (0, 0)])) = 2"
    by simp_all
  have ll: "st_latitude square_station = 1" "st_longitude square_station = 1"
    by (simp_all add: square_station_def)
  note plain = radius_rules [of sample_parser "numbered_station 1" 1500 0
      "\<lparr>ns_station = numbered_station 1, ns_distance = 1500\<rparr>" "Some (pattern_with_speed 25)"
      "[]" "\<lparr>gj_type = None, gj_coordinates = None\<rparr>" "(0, 0)" "[]" "[]"]
  note poly = radius_rules [of sample_parser square_station 1500 ?r
      "\<lparr>ns_station = square_station, ns_distance = 1500\<rparr>" None
      "''square''" "\<lparr>gj_type = Some ''Polygon'', gj_coordinates = Some [square_ring]\<rparr>"
      "(0, 0)" "[(2, 0), (2, 2), (0, 2), (0, 0)]" "[]"]
  have a: "calculateOptimalRadius sample_parser (numbered_station 1) 1500 = 120"
    and b: "calculateDynamicRadius sample_parser \<lparr>ns_station = numbered_station 1, ns_distance = 1500\<rparr>
     (Some (pattern_with_speed 25)) = 150"
    using plain n by (simp_all add: pattern_with_speed_def)
  have pr: "polygon_radius sample_parser square_station = Inr (Some ?r)"
    using poly sq unfolding mm ll by blast
  have c: "calculateOptimalRadius sample_parser square_station 1500 = max (?r + 30) 50"
    and d: "calculateDynamicRadius sample_parser \<lparr>ns_station = square_station, ns_distance = 1500\<rparr> None =
     max (max 100 (?r + 30)) 50"
    using poly pr by simp_all
  show ?thesis using a b c d by simp
qed

text \<open>
  In the selector a station 1500 m away, without polygon and without profile, gets the
  radius 100, not the 120 of the tier table.
\<close>

theorem fallback_radius_counterexample:
  "calculateDynamicRadius sample_parser \<lparr>ns_station = numbered_station 1, ns_distance = 1500\<rparr> None = 100 \<and>
   calculateDynamicRadius sample_parser \<lparr>ns_station = numbered_station 1, ns_distance = 1500\<rparr> None \<noteq> 120"
  by (simp add: calculateDynamicRadius_def Let_def polygon_radius_no_data numbered_station_def)

lemma meridian_distance:
  assumes "\<bar>lat2 - lat1\<bar> < 180"
  shows "calculateDistance lat1 lon lat2 lon = 6371000 * (\<bar>lat2 - lat1\<bar> * pi / 180)"
proof -
  define t where "t = (lat2 - lat1) * pi / 180 / 2"
  have tb: "\<bar>t\<bar> < pi / 2"
  proof -
    have "\<bar>t\<bar> = \<bar>lat2 - lat1\<bar> * pi / 360"
      by (simp add: t_def abs_mult)
    also have "\<dots> < 180 * pi / 360"
      using assms by (simp add: divide_strict_right_mono)
    finally show ?thesis by simp
  qed
  have cpos: "0 < cos t"
    using tb by (intro cos_gt_zero_pi) (auto simp: abs_less_iff)
  have s1: "sqrt (sin t * sin t) = \<bar>sin t\<bar>" by simp
  have "1 - sin t * sin t = cos t * cos t"
    using sin_cos_squared_add [of t] by (simp add: power2_eq_square algebra_simps)
  then have s2: "sqrt (1 - sin t * sin t) = cos t"
    using cpos by simp
  have sabs: "\<bar>sin t\<bar> = sin \<bar>t\<bar>"
  proof (cases "0 \<le> t")
    case True
    then have "0 \<le> sin t" using tb by (intro sin_ge_zero) (auto simp: abs_less_iff)
    then show ?thesis using True by simp
  next
    case False
    then have "0 \<le> sin (- t)" using tb by (intro sin_ge_zero) (auto simp: abs_less_iff)
    then show ?thesis using False by simp
  qed
  have "atan2 \<bar>sin t\<bar> (cos t) = arctan (\<bar>sin t\<bar> / cos t)"
    using cpos by (simp add: atan2_def)
  also have "\<dots> = arctan (tan \<bar>t\<bar>)"
    by (simp add: sabs tan_def)
  also have "\<dots> = \<bar>t\<bar>"
    using tb by (intro arctan_tan) auto
  finally have at: "atan2 \<bar>sin t\<bar> (cos t) = \<bar>t\<bar>" .
  have "calculateDistance lat1 lon lat2 lon = 6371000 * (2 * atan2 (sqrt (sin t * sin t)) (sqrt (1 - sin t * sin t)))"
    by (simp add: calculateDistance_def Let_def t_def)
  also have "\<dots> = 6371000 * (2 * \<bar>t\<bar>)"
    by (simp only: s1 s2 at)
  also have "\<dots> = 6371000 * (\<bar>lat2 - lat1\<bar> * pi / 180)"
    by (simp add: t_def abs_mult)
  finally show ?thesis .
qed

lemma short_step: "calculateDistance a 0 (a + 7 / 1000) 0 < 1000"
proof -
  have "calculateDistance a 0 (a + 7 / 1000) 0 = 6371000 * (\<bar>7 / 1000\<bar> * pi / 180)"
    using meridian_distance [of "a + 7 / 1000" a 0] by simp
  also have "\<dots> < 1000" using pi_less_4 by simp
  finally show ?thesis .
qed

lemma long_walk: "calculateDistance 0 0 (21 / 1000) 0 > 1000"
proof -
  have "calculateDistance 0 0 (21 / 1000) 0 = 6371000 * (\<bar>21 / 1000\<bar> * pi / 180)"
    using meridian_distance [of "21 / 1000" 0 0] by simp
  moreover have "6371000 * (\<bar>21 / 1000\<bar> * pi / 180) > 1000" using pi_ge_two by simp
  ultimately show ?thesis by simp
qed

lemma optimize_empty_catalog:
  "allStations s = [] \<Longrightarrow> activeRegions s = [] \<Longrightarrow>
   optimizeGeofenceRegions always_ok parse now location s =
     s\<lparr>stats := (stats s)\<lparr>gs_nearbyStations := 0, gs_activeRegions := 0, gs_lastOptimization := Some now\<rparr>,
       regions_storage := Some []\<rparr>"
  by (simp add: optimizeGeofenceRegions_def Let_def nearby_stations_def new_regions_def
      prioritizeStations_def js_slice0_def updateActiveRegions_def updateStats_def
      saveRegionsToStorage_def)

lemma first_fix_eq:
  "first_fix = (new_GeofenceManagerService [])\<lparr>currentLocation := Some \<lparr>p_latitude = 0, p_longitude = 0\<rparr>,
     stats := (stats (new_GeofenceManagerService []))\<lparr>gs_lastOptimization := Some 1\<rparr>,
     regions_storage := Some []\<rparr>"
  by (simp add: first_fix_def manager_updateLocation_def Let_def optimize_empty_catalog
      new_GeofenceManagerService_def)

lemma slow_walk_eq:
  "slow_walk = first_fix\<lparr>currentLocation := Some \<lparr>p_latitude = 14 / 1000, p_longitude = 0\<rparr>\<rparr>"
proof -
  have a: "manager_updateLocation always_ok sample_parser 2 (7 / 1000) 0 first_fix =
        first_fix\<lparr>currentLocation := Some \<lparr>p_latitude = 7 / 1000, p_longitude = 0\<rparr>\<rparr>"
    using short_step [of 0] by (simp add: manager_updateLocation_def Let_def first_fix_eq)
  show ?thesis
    unfolding slow_walk_def a
    using short_step [of "7 / 1000"] by (simp add: manager_updateLocation_def Let_def first_fix_eq)
qed

text \<open>
  What \<open>updateLocation\<close> of the manager does: with a previous location less than 1000 m
  away it only stores the new location; otherwise it runs the optimization pass. The
  previous location is that of the preceding update, whether or not a pass ran there.
\<close>

lemma manager_updateLocation_cases:
  "(currentLocation s = Some prev \<and>
    calculateDistance (p_latitude prev) (p_longitude prev) lat lng < 1000 \<longrightarrow>
      manager_updateLocation plugin parse now lat lng s =
        s\<lparr>currentLocation := Some \<lparr>p_latitude = lat, p_longitude = lng\<rparr>\<rparr>) \<and>
   (currentLocation s = None \<or>
    (currentLocation s = Some prev \<and>
     calculateDistance (p_latitude prev) (p_longitude prev) lat lng \<ge> 1000) \<longrightarrow>
      manager_updateLocation plugin parse now lat lng s =
        optimizeGeofenceRegions plugin parse now \<lparr>p_latitude = lat, p_longitude = lng\<rparr>
          (s\<lparr>currentLocation := Some \<lparr>p_latitude = lat, p_longitude = lng\<rparr>\<rparr>))"
  by (auto simp: manager_updateLocation_def Let_def)

text \<open>
  After an optimization at latitude 0, three updates 0.007 degrees (about 780 m) apart leave the
  user more than 1 km from where the last optimization ran, and no pass has run: each update
  was compared with the one before it.
\<close>

lemma slow_walk_no_reoptimization:
  "gs_lastOptimization (stats slow_walk) = Some 1 \<and>
   currentLocation first_fix = Some \<lparr>p_latitude = 0, p_longitude = 0\<rparr> \<and>
   calculateDistance 0 0 (21 / 1000) 0 > 1000 \<and>
   manager_updateLocation always_ok sample_parser 4 (21 / 1000) 0 slow_walk =
     slow_walk\<lparr>currentLocation := Some \<lparr>p_latitude = 21 / 1000, p_longitude = 0\<rparr>\<rparr> \<and>
   gs_lastOptimization (stats (manager_updateLocation always_ok sample_parser 4 (21 / 1000) 0 slow_walk)) = Some 1 \<and>
   manager_updateLocation always_ok sample_parser 4 (21 / 1000) 0 slow_walk \<noteq>
     optimizeGeofenceRegions always_ok sample_parser 4 \<lparr>p_latitude = 21 / 1000, p_longitude = 0\<rparr>
       (slow_walk\<lparr>currentLocation := Some \<lparr>p_latitude = 21 / 1000, p_longitude = 0\<rparr>\<rparr>)"
proof -
  have u: "manager_updateLocation always_ok sample_parser 4 (21 / 1000) 0 slow_walk =
     slow_walk\<lparr>currentLocation := Some \<lparr>p_latitude = 21 / 1000, p_longitude = 0\<rparr>\<rparr>"
    using short_step [of "14 / 1000"]
    by (simp add: manager_updateLocation_def Let_def slow_walk_eq first_fix_eq)
  have o: "gs_lastOptimization (stats (optimizeGeofenceRegions always_ok sample_parser 4
          \<lparr>p_latitude = 21 / 1000, p_longitude = 0\<rparr>
          (slow_walk\<lparr>currentLocation := Some \<lparr>p_latitude = 21 / 1000, p_longitude = 0\<rparr>\<rparr>))) = Some 4"
    by (simp add: optimize_empty_catalog slow_walk_eq first_fix_eq new_GeofenceManagerService_def)
  have l: "gs_lastOptimization (stats slow_walk) = Some 1"
    by (simp add: slow_walk_eq first_fix_eq)
  have n: "manager_updateLocation always_ok sample_parser 4 (21 / 1000) 0 slow_walk \<noteq>
     optimizeGeofenceRegions always_ok sample_parser 4 \<lparr>p_latitude = 21 / 1000, p_longitude = 0\<rparr>
       (slow_walk\<lparr>currentLocation := Some \<lparr>p_latitude = 21 / 1000, p_longitude = 0\<rparr>\<rparr>)"
  proof
    assume "manager_updateLocation always_ok sample_parser 4 (21 / 1000) 0 slow_walk =
     optimizeGeofenceRegions always_ok sample_parser 4 \<lparr>p_latitude = 21 / 1000, p_longitude = 0\<rparr>
       (slow_walk\<lparr>currentLocation := Some \<lparr>p_latitude = 21 / 1000, p_longitude = 0\<rparr>\<rparr>)"
    then have "gs_lastOptimization (stats (manager_updateLocation always_ok sample_parser 4 (21 / 1000) 0 slow_walk)) = Some 4"
      using o by simp
    then show False unfolding u using l by simp
  qed
  have c: "currentLocation first_fix = Some \<lparr>p_latitude = 0, p_longitude = 0\<rparr>"
    by (simp add: first_fix_eq)
  have l': "gs_lastOptimization (stats (manager_updateLocation always_ok sample_parser 4 (21 / 1000) 0 slow_walk)) = Some 1"
    unfolding u using l by simp
  show ?thesis using u l n c l' long_walk by blast
qed

lemma step_back_far: "calculateDistance (14 / 1000) 0 (- 1 / 1000) 0 \<ge> 1000"
proof -
  have "calculateDistance (14 / 1000) 0 (- 1 / 1000) 0 = 6371000 * (\<bar>- 1 / 1000 - 14 / 1000\<bar> * pi / 180)"
    by (rule meridian_distance) simp
  moreover have "6371000 * (\<bar>- 1 / 1000 - 14 / 1000\<bar> * pi / 180) \<ge> 1000"
    using pi_ge_two by simp
  ultimately show ?thesis by simp
qed

lemma step_back_near: "calculateDistance 0 0 (- 1 / 1000) 0 < 1000"
proof -
  have "calculateDistance 0 0 (- 1 / 1000) 0 = 6371000 * (\<bar>- 1 / 1000 - 0\<bar> * pi / 180)"
    by (rule meridian_distance) simp
  moreover have "6371000 * (\<bar>- 1 / 1000 - 0\<bar> * pi / 180) < 1000"
    using pi_less_4 by simp
  ultimately show ?thesis by simp
qed

text \<open>
  Claim C8. For every location update delivered to the manager after a previous location
  exists, the re-optimization pass is to run only when the displacement since the last
  optimization exceeds 1 km, and within 1 km nothing is to be re-optimized. The code measures
  the displacement from the preceding update instead. Evaluated on a walk that is optimized
  at latitude 0 and moves in two steps below 1 km to latitude 0.014: the next update, at
  latitude -0.001, is about 111 m from where the last optimization ran and the pass runs
  (the time of the last optimization moves from 1 to 4).
\<close>

theorem reoptimization_within_one_km:
  "currentLocation first_fix = Some \<lparr>p_latitude = 0, p_longitude = 0\<rparr> \<and>
   gs_lastOptimization (stats first_fix) = Some 1 \<and>
   gs_lastOptimization (stats slow_walk) = Some 1 \<and>
   calculateDistance 0 0 (- 1 / 1000) 0 < 1000 \<and>
   manager_updateLocation always_ok sample_parser 4 (- 1 / 1000) 0 slow_walk =
     optimizeGeofenceRegions always_ok sample_parser 4 \<lparr>p_latitude = - 1 / 1000, p_longitude = 0\<rparr>
       (slow_walk\<lparr>currentLocation := Some \<lparr>p_latitude = - 1 / 1000, p_longitude = 0\<rparr>\<rparr>) \<and>
   gs_lastOptimization (stats (manager_updateLocation always_ok sample_parser 4 (- 1 / 1000) 0 slow_walk)) = Some 4"
proof -
  have u: "manager_updateLocation always_ok sample_parser 4 (- 1 / 1000) 0 slow_walk =
     optimizeGeofenceRegions always_ok sample_parser 4 \<lparr>p_latitude = - 1 / 1000, p_longitude = 0\<rparr>
       (slow_walk\<lparr>currentLocation := Some \<lparr>p_latitude = - 1 / 1000, p_longitude = 0\<rparr>\<rparr>)"
    using step_back_far
    by (simp add: manager_updateLocation_def Let_def slow_walk_eq first_fix_eq)
  have o: "gs_lastOptimization (stats (optimizeGeofenceRegions always_ok sample_parser 4
          \<lparr>p_latitude = - 1 / 1000, p_longitude = 0\<rparr>
          (slow_walk\<lparr>currentLocation := Some \<lparr>p_latitude = - 1 / 1000, p_longitude = 0\<rparr>\<rparr>))) = Some 4"
    by (simp add: optimize_empty_catalog slow_walk_eq first_fix_eq new_GeofenceManagerService_def)
  have l: "gs_lastOptimization (stats slow_walk) = Some 1"
       "gs_lastOptimization (stats first_fix) = Some 1"
       "currentLocation first_fix = Some \<lparr>p_latitude = 0, p_longitude = 0\<rparr>"
    by (simp_all add: slow_walk_eq first_fix_eq)
  show ?thesis using u o l step_back_near by simp
qed

end
